theory Spec2Isabelle
  imports Complex_Main "HOL-Library.AList"
begin

section \<open>Data model of the drag event watcher\<close>

text \<open>
  The development embeds \<^verbatim>\<open>drag-event-watcher.ts\<close> (class \<^verbatim>\<open>DragEventWatcher\<close>).
  JavaScript numbers are modelled as reals (rounding of doubles is outside the model).
  A JavaScript object used as a dictionary, a \<^verbatim>\<open>Map\<close> and a \<^verbatim>\<open>Set\<close> are lists in
  insertion order with distinct keys; identifiers are assumed not to be canonical
  array indices, so that insertion order is iteration order.
\<close>

type_synonym json = string

text \<open>A live block of the store. \<^verbatim>\<open>store.getParent\<close> is the \<open>parent\<close> field: the live
  tree is rooted and acyclic, so the chain of parents is finite. Children are kept by
  identifier, which is all the watcher reads of them.\<close>

datatype BlockModel =
  BlockModel (model_id: string) (model_flavour: string) (role: string)
    (model_children: "string list") (parent: "BlockModel option")

text \<open>Modelled from the spec: \<^verbatim>\<open>matchModels\<close> and the model classes are imported from
  packages that are not among the sources. The specification gives every block a flavour
  as its type tag, so a model class is identified with the flavour it is registered
  under.\<close>

definition NoteBlockModel :: string where "NoteBlockModel = ''affine:note''"
definition ListBlockModel :: string where "ListBlockModel = ''affine:list''"
definition DatabaseBlockModel :: string where "DatabaseBlockModel = ''affine:database''"
definition SurfaceBlockModel :: string where "SurfaceBlockModel = ''affine:surface''"
definition RootBlockModel :: string where "RootBlockModel = ''affine:page''"
definition AttachmentBlockModel :: string where "AttachmentBlockModel = ''affine:attachment''"
definition BookmarkBlockModel :: string where "BookmarkBlockModel = ''affine:bookmark''"

definition matchModels :: "BlockModel \<Rightarrow> string list \<Rightarrow> bool" where
  "matchModels m classes = (model_flavour m \<in> set classes)"

datatype Mode = Page | Edgeless
datatype FromMode = FromBlock | FromGfx

record Bound =
  bound_x :: real
  bound_y :: real
  bound_w :: real
  bound_h :: real

text \<open>An element of the surface's \<^verbatim>\<open>props.elements\<close>. A serialized \<^verbatim>\<open>xywh\<close> string is
  kept deserialized; \<open>None\<close> is an absent (or empty, hence falsy) string.\<close>

record Elem =
  elem_id :: string
  elem_type :: string
  elem_xywh :: "Bound option"
  elem_children :: "(string \<times> json) list option"

record Props =
  elements :: "(string \<times> Elem) list option"
  childElementIds :: "(string \<times> json) list option"
  xywh :: "Bound option"
  style :: "string option"

datatype BlockSnapshot =
  BlockSnapshot (block_id: string) (flavour: string) (props: Props)
    (children: "BlockSnapshot list")

record SliceSnapshot =
  pageId :: string
  content :: "BlockSnapshot list"

record DragBlockEntity =
  entity_type :: string
  fromMode :: "FromMode option"
  snapshot :: "SliceSnapshot option"
  modelIds :: "string list"

record DragFromBlockSuite =
  docId :: string

text \<open>The field \<^verbatim>\<open>from\<close> of a drag payload is \<open>drag_from\<close>.\<close>

record DragBlockPayload =
  bsEntity :: "DragBlockEntity option"
  drag_from :: "DragFromBlockSuite option"

datatype Edge = EdgeTop | EdgeBottom | EdgeLeft | EdgeRight

record DropPayload =
  edge :: "Edge option"
  modelId :: string

datatype Placement = In | Before | After

record Rect =
  left :: real
  top :: real
  width :: real
  height :: real

text \<open>Modelled from the spec: \<^verbatim>\<open>Rect.fromLWTH\<close> belongs to the global utilities, which are
  not among the sources; it builds the rectangle with the given left, width, top and
  height.\<close>

definition fromLWTH :: "real \<Rightarrow> real \<Rightarrow> real \<Rightarrow> real \<Rightarrow> Rect" where
  "fromLWTH l w t h = \<lparr> left = l, top = t, width = w, height = h \<rparr>"

record ModelState =
  ms_model :: BlockModel
  ms_rect :: Rect

record DropResult =
  placement :: Placement
  rect :: Rect
  modelState :: ModelState

datatype error = TypeError

text \<open>What \<^verbatim>\<open>job.snapshotToSlice\<close> can do: throw, return \<^verbatim>\<open>undefined\<close>, or return a slice,
  of which the watcher reads the identifier and the flavour of each unit.\<close>

datatype SliceResult = SliceThrows | SliceUndefined | Slice "(string \<times> string) list"

text \<open>The watcher's surroundings: the constants it imports, and the external collaborators
  (schema, store, transformer job, surface, viewport, views) as functions. A collaborator
  that depends on the state of the store takes the number of store calls made so far.\<close>

record Watcher =
  mode :: Mode
  doc_id :: string
  root_id :: string
  surface_id :: "string option"
  scale :: real
  safeValidate :: "string \<Rightarrow> string \<Rightarrow> bool"
  getConstructor :: "string \<Rightarrow> string list option"
  isGroupLikeBlock :: "string \<Rightarrow> bool"
  getRectByBlockComponent :: "BlockModel \<Rightarrow> Rect"
  getBoundingClientRect :: "string \<Rightarrow> Rect option"
  getSnapshotRect :: "SliceSnapshot \<Rightarrow> Bound option"
  toModelCoordFromClientCoord :: "real \<times> real \<Rightarrow> real \<times> real"
  elementsBound :: Bound
  elementBound :: "string \<Rightarrow> Bound option"
  snapshotToSlice :: "nat \<Rightarrow> SliceSnapshot \<Rightarrow> string option \<Rightarrow> int option \<Rightarrow> SliceResult"
  addElement :: "nat \<Rightarrow> Elem \<Rightarrow> string"
  addBlock :: "nat \<Rightarrow> string"
  getBlock :: "nat \<Rightarrow> string \<Rightarrow> bool"
  BLOCK_CHILDREN_CONTAINER_PADDING_LEFT :: real
  EMBED_CARD_WIDTH :: "string \<Rightarrow> real"
  EMBED_CARD_HEIGHT :: "string \<Rightarrow> real"
  DEFAULT_NOTE_WIDTH :: real
  DEFAULT_NOTE_HEIGHT :: real

section \<open>Drop targets\<close>

text \<open>The loop of \<^verbatim>\<open>_isUnderNoteBlock\<close>, started at the parent of the model.\<close>

fun isUnderNoteLoop :: "BlockModel option \<Rightarrow> bool" where
  "isUnderNoteLoop None = False"
| "isUnderNoteLoop (Some (BlockModel i f r c p)) =
     (if matchModels (BlockModel i f r c p) [NoteBlockModel] then True
      else isUnderNoteLoop p)"

definition isUnderNoteBlock :: "BlockModel \<Rightarrow> bool" where
  "isUnderNoteBlock m = isUnderNoteLoop (parent m)"

text \<open>The \<^verbatim>\<open>canDrop\<close> callback registered by \<^verbatim>\<open>_makeDropTarget\<close> for the view of
  \<open>m\<close>; \<open>doc\<close> is \<^verbatim>\<open>widget.doc.id\<close>.\<close>

definition canDrop :: "string \<Rightarrow> BlockModel \<Rightarrow> DragBlockPayload \<Rightarrow> bool" where
  "canDrop doc m source =
     (case bsEntity source of
        None \<Rightarrow> False
      | Some e \<Rightarrow>
          if entity_type e = ''blocks''
          then map_option docId (drag_from source) \<noteq> Some doc
               \<or> list_all (\<lambda>i. i \<noteq> model_id m) (modelIds e)
          else False)"

record DropTargetReg =
  getIsSticky :: bool
  accepts :: "DragBlockPayload \<Rightarrow> bool"
  setDropData :: string
  alsoDraggable :: bool

text \<open>\<^verbatim>\<open>_makeDropTarget\<close>: \<open>None\<close> when the view is not registered as a drop target.\<close>

definition makeDropTarget :: "Watcher \<Rightarrow> BlockModel \<Rightarrow> DropTargetReg option" where
  "makeDropTarget w m =
     (let isUnderNote = isUnderNoteBlock m in
      if matchModels m [SurfaceBlockModel]
         \<or> (mode w = Page \<and> role m = ''root'')
         \<or> (mode w = Edgeless \<and> \<not> matchModels m [NoteBlockModel] \<and> role m \<noteq> ''root''
             \<and> \<not> isUnderNote)
      then None
      else Some \<lparr> getIsSticky = (mode w = Page \<or> isUnderNote),
                  accepts = canDrop (doc_id w) m,
                  setDropData = model_id m,
                  alsoDraggable = matchModels m [AttachmentBlockModel, BookmarkBlockModel] \<rparr>)"

section \<open>The drop decision\<close>

text \<open>\<^verbatim>\<open>_getFallbackInsertPlace\<close>: walk up from the block to the first block whose parent
  is a note.\<close>

fun getFallbackInsertPlace :: "BlockModel \<Rightarrow> BlockModel option" where
  "getFallbackInsertPlace (BlockModel i f r c p) =
     (case p of
        None \<Rightarrow> None
      | Some q \<Rightarrow>
          if matchModels q [NoteBlockModel] then Some (BlockModel i f r c p)
          else getFallbackInsertPlace q)"

text \<open>\<^verbatim>\<open>_getDropResult\<close>. Reading \<^verbatim>\<open>domRect.left\<close> of a fallback block that has no view
  throws.\<close>

definition getDropResult ::
  "Watcher \<Rightarrow> BlockModel \<Rightarrow> DragBlockPayload \<Rightarrow> DropPayload \<Rightarrow> error + DropResult option"
where
  "getDropResult w model dragPayload dropPayload =
     (case (case bsEntity dragPayload of None \<Rightarrow> None | Some e \<Rightarrow> snapshot e) of
        None \<Rightarrow> Inr None
      | Some snap \<Rightarrow>
          if content snap = [] \<or> drag_from dragPayload = None
             \<or> matchModels model [DatabaseBlockModel]
          then Inr None
          else
            let isDropOnNoteBlock = matchModels model [NoteBlockModel];
                sc = scale w
            in
            if edge dropPayload = Some EdgeRight \<and> matchModels model [ListBlockModel] then
              (let domRect = getRectByBlockComponent w model in
               if list_all (\<lambda>block. safeValidate w (flavour block) ''affine:list'') (content snap)
               then Inr (Some \<lparr> placement = In,
                       rect = fromLWTH
                         (left domRect + BLOCK_CHILDREN_CONTAINER_PADDING_LEFT w)
                         (width domRect - BLOCK_CHILDREN_CONTAINER_PADDING_LEFT w)
                         (top domRect + height domRect)
                         (3 * sc),
                       modelState = \<lparr> ms_model = model, ms_rect = domRect \<rparr> \<rparr>)
               else
                 (case getFallbackInsertPlace model of
                    None \<Rightarrow> Inr None
                  | Some fallbackModel \<Rightarrow>
                      (case getBoundingClientRect w (model_id fallbackModel) of
                         None \<Rightarrow> Inl TypeError
                       | Some domRect' \<Rightarrow>
                           Inr (Some \<lparr> placement = After,
                             rect = fromLWTH (left domRect') (width domRect')
                                      (top domRect' + height domRect') (3 * sc),
                             modelState = \<lparr> ms_model = fallbackModel, ms_rect = domRect' \<rparr> \<rparr>))))
            else
              (let pl = (if isDropOnNoteBlock
                            \<and> safeValidate w (flavour (hd (content snap))) ''affine:note''
                         then In
                         else if edge dropPayload = Some EdgeTop then Before else After);
                   domRect = getRectByBlockComponent w model;
                   y = (if pl = After then top domRect + height domRect
                        else top domRect - 3 * sc)
               in Inr (Some \<lparr> placement = pl,
                        rect = fromLWTH (left domRect) (width domRect) y (3 * sc),
                        modelState = \<lparr> ms_model = model, ms_rect = domRect \<rparr> \<rparr>)))"

text \<open>\<^verbatim>\<open>_updateDropResult\<close>: the rectangle the drop indicator shows afterwards.\<close>

definition updateDropResult :: "DropResult option \<Rightarrow> Rect option" where
  "updateDropResult dropResult =
     (case dropResult of
        None \<Rightarrow> None
      | Some r \<Rightarrow> Some (fromLWTH (left (rect r)) (width (rect r)) (top (rect r)) (height (rect r))))"

section \<open>Rewriting the bounds of a snapshot\<close>

text \<open>Modelled from the spec: \<^verbatim>\<open>Bound.moveDelta\<close> belongs to the global utilities, which are
  not among the sources. The relative rewrite of the specification preserves the layout
  and moves the corner of the bounding box to the destination: the method translates a
  bound and keeps its size.\<close>

definition moveDelta :: "Bound \<Rightarrow> real \<Rightarrow> real \<Rightarrow> Bound" where
  "moveDelta b dx dy = b\<lparr> bound_x := bound_x b + dx, bound_y := bound_y b + dy \<rparr>"

definition startsWith :: "string \<Rightarrow> string \<Rightarrow> bool" where
  "startsWith s p = (take (length p) s = p)"

definition isCardFlavour :: "string \<Rightarrow> bool" where
  "isCardFlavour f = (f = ''affine:attachment'' \<or> startsWith f ''affine:embed-'')"

text \<open>The new position of a bound: the destination itself when the original position is
  ignored, the bound moved by destination minus the snapshot's corner otherwise.\<close>

definition reposition :: "Bound \<Rightarrow> real \<times> real \<Rightarrow> bool \<Rightarrow> Bound \<Rightarrow> Bound" where
  "reposition rct point ignoreOriginalPos b =
     (if ignoreOriginalPos then b\<lparr> bound_x := fst point, bound_y := snd point \<rparr>
      else moveDelta b (- bound_x rct + fst point) (- bound_y rct + snd point))"

definition rewriteElem :: "Bound \<Rightarrow> real \<times> real \<Rightarrow> bool \<Rightarrow> Elem \<Rightarrow> Elem" where
  "rewriteElem rct point ignoreOriginalPos elem =
     (case elem_xywh elem of
        None \<Rightarrow> elem
      | Some elemBound \<Rightarrow> elem\<lparr> elem_xywh := Some (reposition rct point ignoreOriginalPos elemBound) \<rparr>)"

text \<open>The inner function \<^verbatim>\<open>rewrite\<close> of \<^verbatim>\<open>_rewriteSnapshotXYWH\<close>; the block it mutates is
  returned.\<close>

fun rewrite :: "Watcher \<Rightarrow> Bound \<Rightarrow> real \<times> real \<Rightarrow> bool \<Rightarrow> BlockSnapshot \<Rightarrow> BlockSnapshot" where
  "rewrite w rct point ign (BlockSnapshot i f p cs) =
     (if f = ''affine:surface'' then
        BlockSnapshot i f
          (p\<lparr> elements :=
                map_option (map (\<lambda>(k, elem). (k, rewriteElem rct point ign elem))) (elements p) \<rparr>)
          (map (rewrite w rct point ign) cs)
      else
        (case xywh p of
           None \<Rightarrow> BlockSnapshot i f p cs
         | Some blockBound \<Rightarrow>
             (let st = (case style p of None \<Rightarrow> ''vertical'' | Some s \<Rightarrow> s);
                  p1 = (if isCardFlavour f then p\<lparr> style := Some st \<rparr> else p);
                  b1 = (if isCardFlavour f
                        then blockBound\<lparr> bound_w := EMBED_CARD_WIDTH w st,
                                          bound_h := EMBED_CARD_HEIGHT w st \<rparr>
                        else blockBound)
              in BlockSnapshot i f (p1\<lparr> xywh := Some (reposition rct point ign b1) \<rparr>) cs)))"

text \<open>\<^verbatim>\<open>_rewriteSnapshotXYWH\<close>; \<^verbatim>\<open>getSnapshotRect\<close> is a collaborator.\<close>

definition rewriteSnapshotXYWH ::
  "Watcher \<Rightarrow> SliceSnapshot \<Rightarrow> real \<times> real \<Rightarrow> bool \<Rightarrow> SliceSnapshot" where
  "rewriteSnapshotXYWH w snap point ignoreOriginalPos =
     (case getSnapshotRect w snap of
        None \<Rightarrow> snap
      | Some rct \<Rightarrow> snap\<lparr> content := map (rewrite w rct point ignoreOriginalPos) (content snap) \<rparr>)"

section \<open>The largest member of a snapshot\<close>

text \<open>\<^verbatim>\<open>largestElem\<close> is a pair of size and identifier, \<open>None\<close> while undefined.\<close>

type_synonym largest = "(real \<times> string) option"

definition consider_size :: "real \<Rightarrow> string \<Rightarrow> largest \<Rightarrow> largest" where
  "consider_size sz i largestElem =
     (if (case largestElem of None \<Rightarrow> 0 | Some l \<Rightarrow> fst l) < sz then Some (sz, i) else largestElem)"

definition walkElem :: "Elem \<Rightarrow> largest \<Rightarrow> largest" where
  "walkElem elem largestElem =
     (case elem_xywh elem of
        None \<Rightarrow> largestElem
      | Some bound \<Rightarrow> consider_size (bound_w bound * bound_h bound) (elem_id elem) largestElem)"

text \<open>The inner function \<^verbatim>\<open>walk\<close> of \<^verbatim>\<open>_onPageDrop\<close>, with \<open>walks\<close> for
  \<^verbatim>\<open>forEach(walk)\<close>. \<^verbatim>\<open>Object.values\<close> of a surface without elements throws.\<close>

fun walk :: "BlockSnapshot \<Rightarrow> largest \<Rightarrow> error + largest"
  and walks :: "BlockSnapshot list \<Rightarrow> largest \<Rightarrow> error + largest" where
  "walk (BlockSnapshot i f p cs) largestElem =
     (if f = ''affine:surface'' then
        (case elements p of
           None \<Rightarrow> Inl TypeError
         | Some es \<Rightarrow> walks cs (fold walkElem (map snd es) largestElem))
      else
        (case xywh p of
           None \<Rightarrow> Inr largestElem
         | Some bound \<Rightarrow> Inr (consider_size (bound_w bound * bound_h bound) i largestElem)))"
| "walks [] largestElem = Inr largestElem"
| "walks (b # bs) largestElem =
     (case walk b largestElem of
        Inl e \<Rightarrow> Inl e
      | Inr l \<Rightarrow> walks bs l)"

text \<open>The spatial members in the order of the scan, each with its area: the elements of
  a surface, then the members of its children; any other block with a bound, alone.\<close>

fun scanMembers :: "BlockSnapshot \<Rightarrow> (string \<times> real) list" where
  "scanMembers (BlockSnapshot i f p cs) =
     (if f = ''affine:surface'' then
        concat (map (\<lambda>e. case elem_xywh e of None \<Rightarrow> []
                          | Some b \<Rightarrow> [(elem_id e, bound_w b * bound_h b)])
                 (map snd (case elements p of None \<Rightarrow> [] | Some es \<Rightarrow> es)))
        @ concat (map scanMembers cs)
      else
        (case xywh p of None \<Rightarrow> [] | Some b \<Rightarrow> [(i, bound_w b * bound_h b)]))"

section \<open>Calls to the store\<close>

datatype AddProps = PageIdProp string | ReferenceProp string | XywhProp Bound

datatype Call =
    AddBlock string AddProps string "int option"
  | SnapshotToSlice SliceSnapshot "string option" "int option"
  | DeleteBlock string
  | UpdateBlock string "Bound option" "string option"
  | AddElement Elem

text \<open>\<^verbatim>\<open>_dropToModel\<close>: a throw of the job is caught and gives \<^verbatim>\<open>null\<close>. (The telemetry
  of a linked document is not modelled.)\<close>

definition dropToModel ::
  "Watcher \<Rightarrow> nat \<Rightarrow> SliceSnapshot \<Rightarrow> string option \<Rightarrow> int option \<Rightarrow> (string \<times> string) list option"
where
  "dropToModel w n snap par idx =
     (case snapshotToSlice w n snap par idx of
        Slice units \<Rightarrow> Some units
      | _ \<Rightarrow> None)"

section \<open>Dropping blocks on the canvas\<close>

text \<open>The callback after a drop on the surface or the page: cards get their bound and
  style from the rewritten snapshot, by position. Reading the props of a missing unit
  throws, which ends the callback.\<close>

fun cardUpdates :: "(string \<times> string) list \<Rightarrow> BlockSnapshot list \<Rightarrow> Call list" where
  "cardUpdates [] cont = []"
| "cardUpdates (b # bs) cont =
     (if isCardFlavour (snd b) then
        (case cont of
           [] \<Rightarrow> []
         | c # cs' \<Rightarrow> UpdateBlock (fst b) (xywh (props c)) (style (props c)) # cardUpdates bs cs')
      else cardUpdates bs (tl cont))"

definition dropGroup ::
  "Watcher \<Rightarrow> nat \<Rightarrow> SliceSnapshot \<Rightarrow> real \<times> real \<Rightarrow> BlockSnapshot list \<Rightarrow> string
     \<Rightarrow> Call list \<times> Call list"
where
  "dropGroup w n snap point cont par =
     (let groupSnapshot = rewriteSnapshotXYWH w (snap\<lparr> content := cont \<rparr>) point True in
      ([SnapshotToSlice groupSnapshot (Some par) None],
       (case dropToModel w n groupSnapshot (Some par) None of
          None \<Rightarrow> []
        | Some units \<Rightarrow> cardUpdates units (content groupSnapshot))))"

text \<open>\<^verbatim>\<open>_dropAsGfxBlock\<close>: the calls made to the store. The two drops are started one
  after the other, before either callback runs; the callbacks are listed surface first.\<close>

definition dropAsGfxBlock :: "Watcher \<Rightarrow> SliceSnapshot \<Rightarrow> real \<times> real \<Rightarrow> error + Call list" where
  "dropAsGfxBlock w snap clientPoint =
     (let point = toModelCoordFromClientCoord w clientPoint;
          key = (\<lambda>block.
                   if safeValidate w (flavour block) ''affine:surface'' then ''affine:surface''
                   else if safeValidate w (flavour block) ''affine:page'' then ''affine:page''
                   else ''empty'');
          group = (\<lambda>k. filter (\<lambda>block. key block = k) (content snap))
      in
      if group ''empty'' = [] then
        (if group ''affine:surface'' \<noteq> [] \<and> surface_id w = None then Inl TypeError
         else
           (let s = (if group ''affine:surface'' = [] then ([], [])
                     else dropGroup w 0 snap point (group ''affine:surface'') (the (surface_id w)));
                g = (if group ''affine:page'' = [] then ([], [])
                     else dropGroup w (length (fst s)) snap point (group ''affine:page'') (root_id w))
            in Inr (fst s @ fst g @ snd s @ snd g)))
      else
        (let cont = filter (\<lambda>block. safeValidate w (flavour block) ''affine:note'') (content snap);
             pos = toModelCoordFromClientCoord w point;
             noteId = addBlock w 0
         in Inr [AddBlock ''affine:note''
                   (XywhProp \<lparr> bound_x = fst pos, bound_y = snd pos,
                               bound_w = DEFAULT_NOTE_WIDTH w, bound_h = DEFAULT_NOTE_HEIGHT w \<rparr>)
                   (root_id w) None,
                 SnapshotToSlice (snap\<lparr> content := cont \<rparr>) (Some noteId) None]))"

section \<open>The dependency-ordered merge\<close>

text \<open>A \<^verbatim>\<open>Set\<close> of strings in insertion order.\<close>

definition set_add :: "string \<Rightarrow> string list \<Rightarrow> string list" where
  "set_add x xs = (if x \<in> set xs then xs else xs @ [x])"

text \<open>\<^verbatim>\<open>containerTree[k] = containerTree[k] ?? new Set(); containerTree[k].add(x)\<close>\<close>

definition tree_add :: "string \<Rightarrow> string \<Rightarrow> (string \<times> string list) list \<Rightarrow> (string \<times> string list) list" where
  "tree_add k x t = AList.update k (set_add x (case map_of t k of None \<Rightarrow> [] | Some xs \<Rightarrow> xs)) t"

text \<open>\<^verbatim>\<open>containerTree[k].delete(x)\<close>; the key is \<^verbatim>\<open>'root'\<close>, which the tree always has.\<close>

definition tree_delete :: "string \<Rightarrow> string \<Rightarrow> (string \<times> string list) list \<Rightarrow> (string \<times> string list) list" where
  "tree_delete k x t = (case map_of t k of None \<Rightarrow> t | Some xs \<Rightarrow> AList.update k (removeAll x xs) t)"

text \<open>\<^verbatim>\<open>Object.values(containerTree).every(childSet => !childSet.has(x))\<close>\<close>

definition unclaimed :: "(string \<times> string list) list \<Rightarrow> string \<Rightarrow> bool" where
  "unclaimed t x = list_all (\<lambda>childSet. x \<notin> set childSet) (map snd t)"

definition tree_get :: "(string \<times> string list) list \<Rightarrow> string \<Rightarrow> string list" where
  "tree_get t k = (case map_of t k of None \<Rightarrow> [] | Some xs \<Rightarrow> xs)"

text \<open>One application of a member to the document, as the merge makes it: the snapshot
  identifier of the member, the call, the remap table at the moment of the call, and the
  live identifier that came back.\<close>

record Applied =
  member :: string
  call :: Call
  remap_at :: "(string \<times> string) list"
  returned :: "string option"

record MergeState =
  containerTree :: "(string \<times> string list) list"
  idRemap :: "(string \<times> string) list"
  elemMap :: "(string \<times> Elem) list"
  blockMap :: "(string \<times> bool \<times> BlockSnapshot) list"
  applied :: "Applied list"

definition claimChildren ::
  "string \<Rightarrow> string list \<Rightarrow> (string \<times> string list) list \<Rightarrow> (string \<times> string list) list" where
  "claimChildren container childIds t =
     fold (\<lambda>childId t'. tree_delete ''root'' childId (tree_add container childId t')) childIds t"

text \<open>The objects that the test \<^verbatim>\<open>isGroupLikeElem\<close> meets. A class is known by its name;
  it has a constructor function and a prototype object, which are two objects.
  \<^verbatim>\<open>surface.getConstructor(type)\<close> is a collaborator: it answers \<^verbatim>\<open>undefined\<close> or a class,
  given as the list of the names of the class and of the classes it extends, nearest
  first.\<close>

datatype JsObject = Constructor string | Prototype string | FunctionPrototype | ObjectPrototype

text \<open>The prototype chain of the constructor of a class: the constructors of the classes
  it extends, then \<^verbatim>\<open>Function.prototype\<close> and \<^verbatim>\<open>Object.prototype\<close>.\<close>

definition constructorChain :: "string list \<Rightarrow> JsObject list" where
  "constructorChain cls = map Constructor (tl cls) @ [FunctionPrototype, ObjectPrototype]"

text \<open>\<^verbatim>\<open>Object.isPrototypeOf.call(p, v)\<close>: false when \<open>v\<close> is \<^verbatim>\<open>undefined\<close>, else whether \<open>p\<close>
  is on the prototype chain of \<open>v\<close>; here \<open>v\<close> is what \<^verbatim>\<open>getConstructor\<close> answered.\<close>

definition isPrototypeOf :: "JsObject \<Rightarrow> string list option \<Rightarrow> bool" where
  "isPrototypeOf p v = (case v of None \<Rightarrow> False | Some cls \<Rightarrow> p \<in> set (constructorChain cls))"

text \<open>\<^verbatim>\<open>isGroupLikeElem\<close>, applied to the type of an element: the prototype object of
  \<^verbatim>\<open>GfxGroupLikeElementModel\<close> is looked for on the chain of the constructor.\<close>

definition isGroupLikeElem :: "Watcher \<Rightarrow> string \<Rightarrow> bool" where
  "isGroupLikeElem w t =
     (let constructor = getConstructor w t
      in isPrototypeOf (Prototype ''GfxGroupLikeElementModel'') constructor)"

text \<open>The body of the loop over \<^verbatim>\<open>Object.entries(elemMap)\<close> in \<^verbatim>\<open>buildContainerTree\<close>.\<close>

definition buildElem :: "Watcher \<Rightarrow> string \<times> Elem \<Rightarrow> (string \<times> string list) list \<Rightarrow> (string \<times> string list) list" where
  "buildElem w entry t =
     (let elemId = fst entry; elem = snd entry in
      if isGroupLikeElem w (elem_type elem) then
        claimChildren elemId (map fst (case elem_children elem of None \<Rightarrow> [] | Some js \<Rightarrow> js))
          (if unclaimed t elemId then tree_add ''root'' (elem_type elem) t else t)
      else tree_add ''root'' elemId t)"

fun buildContainerTree :: "Watcher \<Rightarrow> BlockSnapshot \<Rightarrow> MergeState \<Rightarrow> MergeState" where
  "buildContainerTree w (BlockSnapshot i f p cs) s =
     (if f = ''affine:surface'' then
        (let em = (case elements p of None \<Rightarrow> [] | Some es \<Rightarrow> es);
             s1 = s\<lparr> elemMap := em, containerTree := fold (buildElem w) em (containerTree s) \<rparr>
         in fold (buildContainerTree w) cs s1)
      else
        (let t0 = containerTree s;
             t1 = (if unclaimed t0 i then tree_add ''root'' i t0 else t0);
             t2 = (if isGroupLikeBlock w f
                   then claimChildren i
                          (map fst (case childElementIds p of None \<Rightarrow> [] | Some js \<Rightarrow> js)) t1
                   else t1)
         in s\<lparr> blockMap :=
                  AList.update i (safeValidate w f ''affine:surface'', BlockSnapshot i f p cs)
                    (blockMap s),
                containerTree := t2 \<rparr>))"

text \<open>The loop that rewrites the keys of a child-id object with the remap table: a key
  with an entry is replaced by its live identifier, any other key is deleted.\<close>

definition rewriteChildIds :: "(string \<times> string) list \<Rightarrow> (string \<times> json) list \<Rightarrow> (string \<times> json) list" where
  "rewriteChildIds remap childJson =
     fold (\<lambda>childId obj.
             case map_of remap childId of
               Some remappedId \<Rightarrow>
                 AList.delete childId
                   (AList.update remappedId
                      (case map_of obj childId of None \<Rightarrow> ''undefined'' | Some v \<Rightarrow> v) obj)
             | None \<Rightarrow> AList.delete childId obj)
          (map fst childJson) childJson"

text \<open>How a run ends, with the state (or the calls) reached: it returns, it throws, or
  the bound on the depth of the recursion is reached.\<close>

datatype 'a outcome = OutOfFuel 'a | Thrown 'a | Returned 'a

fun state_of :: "'a outcome \<Rightarrow> 'a" where
  "state_of (OutOfFuel s) = s"
| "state_of (Thrown s) = s"
| "state_of (Returned s) = s"

text \<open>The part of \<^verbatim>\<open>addInDependencyOrder\<close> after the loop over the dependencies: the
  member \<open>i\<close> is applied. \<open>snap\<close> is the snapshot being merged.\<close>

definition applyMember :: "Watcher \<Rightarrow> SliceSnapshot \<Rightarrow> string \<Rightarrow> MergeState \<Rightarrow> MergeState outcome" where
  "applyMember w snap i s =
     (case map_of (blockMap s) i of
        Some (surfaceChild, blk) \<Rightarrow>
          (let p' = (if isGroupLikeBlock w (flavour blk)
                     then (props blk)\<lparr> childElementIds :=
                            map_option (rewriteChildIds (idRemap s)) (childElementIds (props blk)) \<rparr>
                     else props blk);
               blockSnapshot = BlockSnapshot (block_id blk) (flavour blk) p' (children blk);
               s1 = s\<lparr> blockMap := AList.update i (surfaceChild, blockSnapshot) (blockMap s) \<rparr>
           in
           if surfaceChild \<and> surface_id w = None then Thrown s1
           else
             (let par = (if surfaceChild then the (surface_id w) else root_id w);
                  one = snap\<lparr> content := [blockSnapshot] \<rparr>;
                  slices = dropToModel w (length (applied s1)) one (Some par) None;
                  entry = \<lparr> member = i, call = SnapshotToSlice one (Some par) None,
                            remap_at = idRemap s1, returned = None \<rparr>
              in
              case slices of
                None \<Rightarrow> Returned (s1\<lparr> applied := applied s1 @ [entry] \<rparr>)
              | Some [] \<Rightarrow> Thrown (s1\<lparr> applied := applied s1 @ [entry] \<rparr>)
              | Some (u # us) \<Rightarrow>
                  Returned (s1\<lparr> idRemap := AList.update i (fst u) (idRemap s1),
                                applied := applied s1 @ [entry\<lparr> returned := Some (fst u) \<rparr>] \<rparr>)))
      | None \<Rightarrow>
          (case map_of (elemMap s) i of
             Some elem \<Rightarrow>
               (let elem' = elem\<lparr> elem_children :=
                              map_option (rewriteChildIds (idRemap s)) (elem_children elem) \<rparr>;
                    newId = addElement w (length (applied s)) elem'
                in Returned (s\<lparr> elemMap := AList.update i elem' (elemMap s),
                                 idRemap := AList.update i newId (idRemap s),
                                 applied := applied s @
                                   [\<lparr> member = i, call = AddElement elem',
                                      remap_at = idRemap s, returned = Some newId \<rparr>] \<rparr>))
           | None \<Rightarrow> Returned s))"

text \<open>\<^verbatim>\<open>addInDependencyOrder\<close>, with \<open>addEach\<close> for a loop that awaits it on every
  identifier of a set. The recursion follows the container tree and need not end, so it
  is bounded by its depth.\<close>

fun addInDependencyOrder :: "nat \<Rightarrow> Watcher \<Rightarrow> SliceSnapshot \<Rightarrow> string \<Rightarrow> MergeState \<Rightarrow> MergeState outcome"
  and addEach :: "nat \<Rightarrow> Watcher \<Rightarrow> SliceSnapshot \<Rightarrow> string list \<Rightarrow> MergeState \<Rightarrow> MergeState outcome" where
  "addInDependencyOrder 0 w snap i s = OutOfFuel s"
| "addInDependencyOrder (Suc n) w snap i s =
     (case addEach n w snap (tree_get (containerTree s) i) s of
        Returned s1 \<Rightarrow> applyMember w snap i s1
      | Thrown s1 \<Rightarrow> Thrown s1
      | OutOfFuel s1 \<Rightarrow> OutOfFuel s1)"
| "addEach n w snap [] s = Returned s"
| "addEach n w snap (childId # rest) s =
     (case addInDependencyOrder n w snap childId s of
        Returned s1 \<Rightarrow> addEach n w snap rest s1
      | Thrown s1 \<Rightarrow> Thrown s1
      | OutOfFuel s1 \<Rightarrow> OutOfFuel s1)"

definition initialMergeState :: MergeState where
  "initialMergeState =
     \<lparr> containerTree = [(''root'', [])], idRemap = [], elemMap = [], blockMap = [], applied = [] \<rparr>"

text \<open>The first half of \<^verbatim>\<open>_mergeSnapshotToCurDoc\<close>: the destination point, the rewritten
  snapshot, and the state after \<^verbatim>\<open>snapshot.content.forEach(buildContainerTree)\<close>.\<close>

definition mergePoint :: "Watcher \<Rightarrow> (real \<times> real) option \<Rightarrow> real \<times> real" where
  "mergePoint w point =
     (case point of
        None \<Rightarrow> (bound_x (elementsBound w) + bound_w (elementsBound w),
                 bound_y (elementsBound w) + bound_h (elementsBound w) / 2)
      | Some pt \<Rightarrow> toModelCoordFromClientCoord w pt)"

definition mergeSnapshot :: "Watcher \<Rightarrow> SliceSnapshot \<Rightarrow> (real \<times> real) option \<Rightarrow> SliceSnapshot" where
  "mergeSnapshot w snap point = rewriteSnapshotXYWH w snap (mergePoint w point) False"

definition mergeTree :: "Watcher \<Rightarrow> SliceSnapshot \<Rightarrow> (real \<times> real) option \<Rightarrow> MergeState" where
  "mergeTree w snap point =
     fold (buildContainerTree w) (content (mergeSnapshot w snap point)) initialMergeState"

text \<open>\<^verbatim>\<open>_mergeSnapshotToCurDoc\<close>: the final state holds the remap table it returns.\<close>

definition mergeSnapshotToCurDoc ::
  "nat \<Rightarrow> Watcher \<Rightarrow> SliceSnapshot \<Rightarrow> (real \<times> real) option \<Rightarrow> MergeState outcome" where
  "mergeSnapshotToCurDoc fuel w snap point =
     (let s0 = mergeTree w snap point
      in addEach fuel w (mergeSnapshot w snap point) (tree_get (containerTree s0) ''root'') s0)"

section \<open>Dropping on the page\<close>

text \<open>\<^verbatim>\<open>Array.prototype.indexOf\<close> and indexing, which gives \<^verbatim>\<open>undefined\<close> out of range.\<close>

definition indexOf :: "string list \<Rightarrow> string \<Rightarrow> int" where
  "indexOf xs x = (if x \<in> set xs then int (length (takeWhile (\<lambda>y. y \<noteq> x) xs)) else - 1)"

definition at_index :: "'a list \<Rightarrow> int \<Rightarrow> 'a option" where
  "at_index xs k = (if 0 \<le> k \<and> k < int (length xs) then Some (xs ! nat k) else None)"

definition draggedSnapshot :: "DragBlockPayload \<Rightarrow> SliceSnapshot option" where
  "draggedSnapshot dragPayload = (case bsEntity dragPayload of None \<Rightarrow> None | Some e \<Rightarrow> snapshot e)"

definition draggedFromGfx :: "DragBlockPayload \<Rightarrow> bool" where
  "draggedFromGfx dragPayload =
     (case bsEntity dragPayload of None \<Rightarrow> False | Some e \<Rightarrow> fromMode e = Some FromGfx)"

definition fromThisDoc :: "Watcher \<Rightarrow> DragBlockPayload \<Rightarrow> bool" where
  "fromThisDoc w dragPayload = (map_option docId (drag_from dragPayload) = Some (doc_id w))"

text \<open>The placeholder block of the canvas-to-page fallback; \<^verbatim>\<open>store.doc.id\<close> is the
  identifier of the document of the watcher.\<close>

definition placeholder :: "Watcher \<Rightarrow> largest \<Rightarrow> string \<Rightarrow> int \<Rightarrow> Call" where
  "placeholder w largestElem par idx =
     (case largestElem of
        None \<Rightarrow> AddBlock ''affine:embed-linked-doc'' (PageIdProp (doc_id w)) par (Some idx)
      | Some l \<Rightarrow> AddBlock ''affine:surface-ref'' (ReferenceProp (snd l)) par (Some idx))"

text \<open>The scan of the remap table after a merge from another document.\<close>

definition largestOfRemap :: "Watcher \<Rightarrow> (string \<times> string) list \<Rightarrow> largest" where
  "largestOfRemap w remap =
     fold (\<lambda>val largestElem.
             case elementBound w val of
               None \<Rightarrow> largestElem
             | Some elemBound \<Rightarrow>
                 consider_size (bound_w elemBound * bound_h elemBound) val largestElem)
          (map snd remap) None"

text \<open>\<^verbatim>\<open>_onDropNoteOnNote\<close>: the children of the first unit are inserted; when that does
  not throw, the block with the identifier of the first unit is deleted if the store has
  it.\<close>

definition onDropNoteOnNote ::
  "Watcher \<Rightarrow> SliceSnapshot \<Rightarrow> string option \<Rightarrow> int option \<Rightarrow> error + Call list" where
  "onDropNoteOnNote w snap par idx =
     (case content snap of
        [] \<Rightarrow> Inl TypeError
      | first # others \<Rightarrow>
          (let snapshotWithoutNote = snap\<lparr> content := children first \<rparr> in
           Inr (SnapshotToSlice snapshotWithoutNote par idx #
                (case snapshotToSlice w 0 snapshotWithoutNote par idx of
                   SliceThrows \<Rightarrow> []
                 | _ \<Rightarrow> if getBlock w 1 (block_id first) then [DeleteBlock (block_id first)] else []))))"

text \<open>The test \<^verbatim>\<open>drop on the same place, do nothing\<close> of \<^verbatim>\<open>_onPageDrop\<close>.\<close>

definition onSamePlace ::
  "Watcher \<Rightarrow> DragBlockPayload \<Rightarrow> Placement \<Rightarrow> BlockModel \<Rightarrow> int \<Rightarrow> SliceSnapshot \<Rightarrow> bool" where
  "onSamePlace w dragPayload pl par idx snap =
     ((fromThisDoc w dragPayload \<and> pl = After
        \<and> at_index (model_children par) idx = Some (block_id (hd (content snap))))
      \<or> (pl = Before
        \<and> at_index (model_children par) (idx - 1) = Some (block_id (last (content snap)))))"

text \<open>The parent and the index of the insertion, as \<^verbatim>\<open>_onPageDrop\<close> computes them from
  the decision; \<^verbatim>\<open>getParent\<close> of the root is \<^verbatim>\<open>null\<close>.\<close>

definition dropParent :: "DropResult \<Rightarrow> BlockModel option" where
  "dropParent result =
     (if placement result = In then Some (ms_model (modelState result))
      else parent (ms_model (modelState result)))"

definition dropIndex :: "DropResult \<Rightarrow> BlockModel \<Rightarrow> int" where
  "dropIndex result par =
     (if placement result = In then 0
      else indexOf (model_children par) (model_id (ms_model (modelState result)))
           + (if placement result = Before then 0 else 1))"

text \<open>The canvas-to-page fallback is taken for a drag from the canvas unless every unit
  validates under a note or every unit is a note.\<close>

definition needsPlaceholder :: "Watcher \<Rightarrow> DragBlockPayload \<Rightarrow> SliceSnapshot \<Rightarrow> bool" where
  "needsPlaceholder w dragPayload snap =
     (draggedFromGfx dragPayload
      \<and> \<not> list_all (\<lambda>block. safeValidate w (flavour block) ''affine:note'') (content snap)
      \<and> \<not> list_all (\<lambda>block. flavour block = ''affine:note'') (content snap))"

text \<open>\<^verbatim>\<open>_onPageDrop\<close>: the calls made to the store. An error thrown by the merge or by
  a drop is caught and logged; one thrown before any call leaves the function.\<close>

definition onPageDrop ::
  "nat \<Rightarrow> Watcher \<Rightarrow> BlockModel \<Rightarrow> DragBlockPayload \<Rightarrow> DropPayload \<Rightarrow> Call list outcome" where
  "onPageDrop fuel w dropModel dragPayload dropPayload =
     (case getDropResult w dropModel dragPayload dropPayload of
        Inl e \<Rightarrow> Thrown []
      | Inr None \<Rightarrow> Returned []
      | Inr (Some result) \<Rightarrow>
          (case draggedSnapshot dragPayload of
             None \<Rightarrow> Returned []
           | Some snap \<Rightarrow>
               if content snap = [] then Returned []
               else
                 (case dropParent result of
                    None \<Rightarrow> Thrown []
                  | Some par \<Rightarrow>
                      (let idx = dropIndex result par
                       in
                       if draggedFromGfx dragPayload \<and> \<not> matchModels par [NoteBlockModel]
                       then Returned []
                       else if needsPlaceholder w dragPayload snap then
                         (if \<not> fromThisDoc w dragPayload then
                            (case mergeSnapshotToCurDoc fuel w snap None of
                               OutOfFuel s \<Rightarrow> OutOfFuel (map call (applied s))
                             | Thrown s \<Rightarrow> Returned (map call (applied s))
                             | Returned s \<Rightarrow>
                                 Returned (map call (applied s) @
                                   [placeholder w (largestOfRemap w (idRemap s)) (model_id par) idx]))
                          else
                            (case walks (content snap) None of
                               Inl e \<Rightarrow> Thrown []
                             | Inr largestElem \<Rightarrow>
                                 Returned [placeholder w largestElem (model_id par) idx]))
                       else if matchModels par [NoteBlockModel]
                               \<and> flavour (hd (content snap)) = ''affine:note'' then
                         (if model_id par \<noteq> block_id (hd (content snap)) then
                            (case onDropNoteOnNote w snap (Some (model_id par)) (Some idx) of
                               Inl e \<Rightarrow> Thrown []
                             | Inr calls \<Rightarrow> Returned calls)
                          else Returned [])
                       else if onSamePlace w dragPayload (placement result) par idx snap
                       then Returned []
                       else Returned [SnapshotToSlice snap (Some (model_id par)) (Some idx)]))))"

text \<open>\<^verbatim>\<open>_onEdgelessDrop\<close> and \<^verbatim>\<open>_onDrop\<close>.\<close>

definition onEdgelessDrop ::
  "nat \<Rightarrow> Watcher \<Rightarrow> BlockModel \<Rightarrow> DragBlockPayload \<Rightarrow> DropPayload \<Rightarrow> real \<times> real
     \<Rightarrow> Call list outcome" where
  "onEdgelessDrop fuel w dropModel dragPayload dropPayload point =
     (if matchModels dropModel [RootBlockModel] then
        (if draggedFromGfx dragPayload \<and> fromThisDoc w dragPayload then Returned []
         else
           (case draggedSnapshot dragPayload of
              None \<Rightarrow> Returned []
            | Some snap \<Rightarrow>
                if surface_id w = None then Returned []
                else if draggedFromGfx dragPayload then
                  (case mergeSnapshotToCurDoc fuel w snap (Some point) of
                     OutOfFuel s \<Rightarrow> OutOfFuel (map call (applied s))
                   | Thrown s \<Rightarrow> Returned (map call (applied s))
                   | Returned s \<Rightarrow> Returned (map call (applied s)))
                else
                  (case dropAsGfxBlock w snap point of
                     Inl e \<Rightarrow> Thrown []
                   | Inr calls \<Rightarrow> Returned calls)))
      else onPageDrop fuel w dropModel dragPayload dropPayload)"

definition onDrop ::
  "nat \<Rightarrow> Watcher \<Rightarrow> BlockModel \<Rightarrow> DragBlockPayload \<Rightarrow> DropPayload \<Rightarrow> real \<times> real
     \<Rightarrow> Call list outcome" where
  "onDrop fuel w dropModel dragPayload dropPayload point =
     (if mode w = Edgeless then onEdgelessDrop fuel w dropModel dragPayload dropPayload point
      else onPageDrop fuel w dropModel dragPayload dropPayload)"

section \<open>Notions used to state the properties\<close>

subsection \<open>Members and their bounds\<close>

text \<open>The scan for the largest member, over a list of members with their areas.\<close>

definition pick :: "(string \<times> real) list \<Rightarrow> largest \<Rightarrow> largest" where
  "pick ms l = fold (\<lambda>m. consider_size (snd m) (fst m)) ms l"




text \<open>A spatial member of a snapshot, as the rewrite of the bounds sees it: an element of
  a surface (no flavour), a child of a surface, or a unit of the snapshot, with its bound.\<close>

datatype Member =
  Member (member_flavour: "string option") (member_style: "string option") (member_bound: Bound)

fun spatialMembers :: "BlockSnapshot \<Rightarrow> Member list" where
  "spatialMembers (BlockSnapshot i f p cs) =
     (if f = ''affine:surface'' then
        concat (map (\<lambda>e. case elem_xywh e of None \<Rightarrow> [] | Some b \<Rightarrow> [Member None None b])
                 (map snd (case elements p of None \<Rightarrow> [] | Some es \<Rightarrow> es)))
        @ concat (map spatialMembers cs)
      else
        (case xywh p of None \<Rightarrow> [] | Some b \<Rightarrow> [Member (Some f) (style p) b]))"

text \<open>The bound that the specification gives a member after the rewrite, in its own
  words: \<open>(mx - x + P.x, my - y + P.y)\<close> in relative mode, \<open>P\<close> in absolute mode, and the
  canonical card dimensions of the style for an attachment or an embed.\<close>

definition spec_rewritten_bound :: "Watcher \<Rightarrow> Bound \<Rightarrow> real \<times> real \<Rightarrow> bool \<Rightarrow> Member \<Rightarrow> Bound" where
  "spec_rewritten_bound w rct P absolute m =
     (let b = member_bound m;
          card = (case member_flavour m of
                    None \<Rightarrow> False
                  | Some f \<Rightarrow> f = ''affine:attachment'' \<or> startsWith f ''affine:embed-'');
          st = (case member_style m of None \<Rightarrow> ''vertical'' | Some s' \<Rightarrow> s')
      in \<lparr> bound_x = (if absolute then fst P else bound_x b - bound_x rct + fst P),
           bound_y = (if absolute then snd P else bound_y b - bound_y rct + snd P),
           bound_w = (if card then EMBED_CARD_WIDTH w st else bound_w b),
           bound_h = (if card then EMBED_CARD_HEIGHT w st else bound_h b) \<rparr>)"

subsection \<open>Ancestors\<close>

text \<open>A block followed by its ancestors, nearest first.\<close>

fun selfAndAncestors :: "BlockModel \<Rightarrow> BlockModel list" where
  "selfAndAncestors (BlockModel i f r c p) =
     BlockModel i f r c p # (case p of None \<Rightarrow> [] | Some q \<Rightarrow> selfAndAncestors q)"

definition parentIsNote :: "BlockModel \<Rightarrow> bool" where
  "parentIsNote b = (case parent b of None \<Rightarrow> False | Some q \<Rightarrow> matchModels q [NoteBlockModel])"

subsection \<open>The order of the merge\<close>

text \<open>The child identifiers with which a call applies a container: those of an element,
  and those of a group-like block.\<close>

definition appliedChildIds :: "Watcher \<Rightarrow> Call \<Rightarrow> string list" where
  "appliedChildIds w c =
     (case c of
        AddElement elem \<Rightarrow> map fst (case elem_children elem of None \<Rightarrow> [] | Some js \<Rightarrow> js)
      | SnapshotToSlice one par idx \<Rightarrow>
          concat (map (\<lambda>b. if isGroupLikeBlock w (flavour b)
                            then map fst (case childElementIds (props b) of None \<Rightarrow> [] | Some js \<Rightarrow> js)
                            else [])
                    (content one))
      | _ \<Rightarrow> [])"

text \<open>The members of the snapshot that the merge can apply: the blocks and the elements
  it has collected.\<close>

definition isMember :: "MergeState \<Rightarrow> string \<Rightarrow> bool" where
  "isMember s d = (d \<in> fst ` set (blockMap s) \<or> d \<in> fst ` set (elemMap s))"

text \<open>What holds of an application \<open>e\<close> that comes after the applications \<open>before\<close>, and
  of a whole trace; \<open>merge_inv\<close> is the invariant of the recursion.\<close>

definition entry_ok :: "Watcher \<Rightarrow> MergeState \<Rightarrow> Applied list \<Rightarrow> Applied \<Rightarrow> bool" where
  "entry_ok w T before e =
     (set (appliedChildIds w (call e)) \<subseteq> snd ` set (remap_at e)
      \<and> (\<forall>d\<in>set (tree_get (containerTree T) (member e)).
            isMember T d \<longrightarrow> (\<exists>e'\<in>set before. member e' = d))
      \<and> (\<forall>e'\<in>set before. returned e' \<noteq> None \<longrightarrow> member e' \<in> fst ` set (remap_at e))
      \<and> (\<forall>p\<in>set (remap_at e). \<exists>e'\<in>set before. member e' = fst p \<and> returned e' = Some (snd p)))"

definition trace_ok :: "Watcher \<Rightarrow> MergeState \<Rightarrow> Applied list \<Rightarrow> bool" where
  "trace_ok w T es = (\<forall>k<length es. entry_ok w T (take k es) (es ! k))"

definition merge_inv :: "Watcher \<Rightarrow> MergeState \<Rightarrow> MergeState \<Rightarrow> bool" where
  "merge_inv w T s =
     (containerTree s = containerTree T
      \<and> fst ` set (blockMap s) = fst ` set (blockMap T)
      \<and> fst ` set (elemMap s) = fst ` set (elemMap T)
      \<and> trace_ok w T (applied s)
      \<and> (\<forall>e'\<in>set (applied s). returned e' \<noteq> None \<longrightarrow> member e' \<in> fst ` set (idRemap s))
      \<and> (\<forall>p\<in>set (idRemap s). \<exists>e'\<in>set (applied s). member e' = fst p \<and> returned e' = Some (snd p)))"

text \<open>The two shapes of an application: nothing is recorded, or one entry is.\<close>

definition silent :: "MergeState \<Rightarrow> MergeState \<Rightarrow> bool" where
  "silent s s' =
     (containerTree s' = containerTree s
      \<and> fst ` set (blockMap s') = fst ` set (blockMap s)
      \<and> fst ` set (elemMap s') = fst ` set (elemMap s)
      \<and> applied s' = applied s \<and> idRemap s' = idRemap s)"

definition records :: "Watcher \<Rightarrow> string \<Rightarrow> MergeState \<Rightarrow> MergeState \<Rightarrow> bool" where
  "records w i s s' =
     (\<exists>e. member e = i \<and> remap_at e = idRemap s
          \<and> set (appliedChildIds w (call e)) \<subseteq> snd ` set (idRemap s)
          \<and> containerTree s' = containerTree s
          \<and> fst ` set (blockMap s') = fst ` set (blockMap s)
          \<and> fst ` set (elemMap s') = fst ` set (elemMap s)
          \<and> applied s' = applied s @ [e]
          \<and> idRemap s' = (case returned e of None \<Rightarrow> idRemap s
                            | Some r \<Rightarrow> AList.update i r (idRemap s)))"

section \<open>Example inputs\<close>

text \<open>A small schema, a watcher and a document, on which the theorems below are
  instantiated.\<close>

definition exampleSchema :: "string \<Rightarrow> string \<Rightarrow> bool" where
  "exampleSchema f p =
     ((f, p) \<in> set [(''affine:paragraph'', ''affine:note''), (''affine:paragraph'', ''affine:list''),
                    (''affine:list'', ''affine:note''), (''affine:list'', ''affine:list''),
                    (''affine:attachment'', ''affine:note''), (''affine:attachment'', ''affine:surface''),
                    (''affine:database'', ''affine:note''),
                    (''affine:note'', ''affine:page''), (''affine:surface'', ''affine:page''),
                    (''affine:frame'', ''affine:surface'')])"

definition exampleWatcher :: Watcher where
  "exampleWatcher =
     \<lparr> mode = Page, doc_id = ''doc-1'', root_id = ''root-0'', surface_id = Some ''surface-0'',
       scale = 1, safeValidate = exampleSchema,
       getConstructor =
         (\<lambda>t. if t = ''group''
               then Some [''GroupElementModel'', ''GfxGroupLikeElementModel'', ''GfxPrimitiveElementModel'']
               else if t = ''shape'' then Some [''ShapeElementModel'', ''GfxPrimitiveElementModel'']
               else None),
       isGroupLikeBlock = (\<lambda>f. f = ''affine:frame''),
       getRectByBlockComponent = (\<lambda>m. \<lparr> left = 0, top = 0, width = 100, height = 20 \<rparr>),
       getBoundingClientRect = (\<lambda>i. Some \<lparr> left = 0, top = 40, width = 100, height = 60 \<rparr>),
       getSnapshotRect = (\<lambda>s. None),
       toModelCoordFromClientCoord = (\<lambda>pt. (fst pt - 10, snd pt - 10)),
       elementsBound = \<lparr> bound_x = 0, bound_y = 0, bound_w = 0, bound_h = 0 \<rparr>,
       elementBound = (\<lambda>i. None),
       snapshotToSlice =
         (\<lambda>n snap par idx. Slice (map (\<lambda>b. (''live-'' @ block_id b, flavour b)) (content snap))),
       addElement = (\<lambda>n elem. ''live-'' @ elem_id elem),
       addBlock = (\<lambda>n. ''note-new''),
       getBlock = (\<lambda>n i. True),
       BLOCK_CHILDREN_CONTAINER_PADDING_LEFT = 24,
       EMBED_CARD_WIDTH = (\<lambda>st. if st = ''horizontal'' then 752 else 364),
       EMBED_CARD_HEIGHT = (\<lambda>st. if st = ''horizontal'' then 116 else 390),
       DEFAULT_NOTE_WIDTH = 800, DEFAULT_NOTE_HEIGHT = 92 \<rparr>"

definition exampleRoot :: BlockModel where
  "exampleRoot = BlockModel ''root-0'' ''affine:page'' ''root'' [''surface-0'', ''note-1''] None"

definition exampleSurface :: BlockModel where
  "exampleSurface = BlockModel ''surface-0'' ''affine:surface'' ''hub'' [] (Some exampleRoot)"

definition exampleNote :: BlockModel where
  "exampleNote = BlockModel ''note-1'' ''affine:note'' ''hub'' [''p1'', ''l1'', ''p2''] (Some exampleRoot)"

definition exampleParagraph :: BlockModel where
  "exampleParagraph = BlockModel ''p1'' ''affine:paragraph'' ''content'' [] (Some exampleNote)"

definition noProps :: Props where
  "noProps = \<lparr> elements = None, childElementIds = None, xywh = None, style = None \<rparr>"

definition blocksPayload ::
  "string \<Rightarrow> FromMode \<Rightarrow> BlockSnapshot list \<Rightarrow> string list \<Rightarrow> DragBlockPayload" where
  "blocksPayload doc fm cont ids =
     \<lparr> bsEntity = Some \<lparr> entity_type = ''blocks'', fromMode = Some fm,
                          snapshot = Some \<lparr> pageId = doc, content = cont \<rparr>, modelIds = ids \<rparr>,
       drag_from = Some \<lparr> docId = doc \<rparr> \<rparr>"

definition exampleShape :: "string \<Rightarrow> real \<Rightarrow> real \<Rightarrow> real \<Rightarrow> real \<Rightarrow> Elem" where
  "exampleShape i x y wd ht =
     \<lparr> elem_id = i, elem_type = ''shape'',
       elem_xywh = Some \<lparr> bound_x = x, bound_y = y, bound_w = wd, bound_h = ht \<rparr>,
       elem_children = None \<rparr>"


text \<open>A surface with one element and a frame, and an attachment, in a slice whose
  bounding box starts at (10, 20).\<close>

definition exampleSpatial :: SliceSnapshot where
  "exampleSpatial =
     \<lparr> pageId = ''doc-2'',
       content =
         [BlockSnapshot ''surface-9'' ''affine:surface''
            (noProps\<lparr> elements := Some [(''e1'', exampleShape ''e1'' 10 20 30 40)] \<rparr>)
            [BlockSnapshot ''f1'' ''affine:frame''
               (noProps\<lparr> xywh := Some \<lparr> bound_x = 50, bound_y = 60, bound_w = 100, bound_h = 100 \<rparr> \<rparr>) []],
          BlockSnapshot ''att1'' ''affine:attachment''
            (noProps\<lparr> xywh := Some \<lparr> bound_x = 15, bound_y = 25, bound_w = 10, bound_h = 10 \<rparr> \<rparr>) []] \<rparr>"

definition exampleText :: SliceSnapshot where
  "exampleText =
     \<lparr> pageId = ''doc-1'', content = [BlockSnapshot ''p1'' ''affine:paragraph'' noProps []] \<rparr>"

definition boundingWatcher :: Watcher where
  "boundingWatcher =
     exampleWatcher\<lparr> getSnapshotRect :=
       (\<lambda>s. Some \<lparr> bound_x = 10, bound_y = 20, bound_w = 140, bound_h = 140 \<rparr>) \<rparr>"



subsection \<open>Further example inputs\<close>

definition paragraphUnit :: "string \<Rightarrow> BlockSnapshot" where
  "paragraphUnit i = BlockSnapshot i ''affine:paragraph'' noProps []"

definition listUnit :: "string \<Rightarrow> BlockSnapshot" where
  "listUnit i = BlockSnapshot i ''affine:list'' noProps []"

definition frameUnit :: "string \<Rightarrow> BlockSnapshot" where
  "frameUnit i = BlockSnapshot i ''affine:frame'' noProps []"


definition exampleMixed :: SliceSnapshot where
  "exampleMixed = \<lparr> pageId = ''doc-1'', content = [paragraphUnit ''p1'', frameUnit ''f1''] \<rparr>"

text \<open>The list item \<open>l1\<close> of the note, with one child \<open>c1\<close>.\<close>

definition exampleListItem :: BlockModel where
  "exampleListItem = BlockModel ''l1'' ''affine:list'' ''content'' [''c1''] (Some exampleNote)"

definition exampleNested :: BlockModel where
  "exampleNested = BlockModel ''c1'' ''affine:list'' ''content'' [] (Some exampleListItem)"

definition rightEdge :: "string \<Rightarrow> DropPayload" where
  "rightEdge i = \<lparr> edge = Some EdgeRight, modelId = i \<rparr>"

definition decisionAfter :: "BlockModel \<Rightarrow> DropResult" where
  "decisionAfter m =
     \<lparr> placement = After, rect = fromLWTH 0 100 20 3,
       modelState = \<lparr> ms_model = m, ms_rect = \<lparr> left = 0, top = 0, width = 100, height = 20 \<rparr> \<rparr> \<rparr>"

subsection \<open>Example snapshots with containers\<close>

text \<open>A group \<open>g1\<close> of one shape \<open>s1\<close>, at the top level of a surface, written after its
  member and written before it; and the same group inside a frame \<open>f1\<close>, which also refers
  to an element \<open>zz\<close> that the snapshot lacks.\<close>

definition exampleGroupElem :: "string \<Rightarrow> string list \<Rightarrow> Elem" where
  "exampleGroupElem i cs =
     \<lparr> elem_id = i, elem_type = ''group'', elem_xywh = None,
       elem_children = Some (map (\<lambda>c. (c, ''true'')) cs) \<rparr>"

definition exampleGroup :: SliceSnapshot where
  "exampleGroup =
     \<lparr> pageId = ''doc-2'',
       content = [BlockSnapshot ''surface-9'' ''affine:surface''
          (noProps\<lparr> elements := Some [(''s1'', exampleShape ''s1'' 0 0 2 5),
                                        (''g1'', exampleGroupElem ''g1'' [''s1''])] \<rparr>) []] \<rparr>"

definition exampleGroupFirst :: SliceSnapshot where
  "exampleGroupFirst =
     \<lparr> pageId = ''doc-2'',
       content = [BlockSnapshot ''surface-9'' ''affine:surface''
          (noProps\<lparr> elements := Some [(''g1'', exampleGroupElem ''g1'' [''s1'']),
                                        (''s1'', exampleShape ''s1'' 0 0 2 5)] \<rparr>) []] \<rparr>"

definition exampleFrame :: SliceSnapshot where
  "exampleFrame =
     \<lparr> pageId = ''doc-2'',
       content = [BlockSnapshot ''surface-9'' ''affine:surface''
          (noProps\<lparr> elements := Some [(''s1'', exampleShape ''s1'' 0 0 2 5),
                                        (''g1'', exampleGroupElem ''g1'' [''s1''])] \<rparr>)
          [BlockSnapshot ''f1'' ''affine:frame''
             (noProps\<lparr> childElementIds := Some [(''g1'', ''true''), (''zz'', ''true'')] \<rparr>) []]] \<rparr>"

definition frameMerged :: MergeState where
  "frameMerged =
     \<lparr> containerTree = [(''root'', [''s1'', ''f1'']), (''f1'', [''g1'', ''zz''])],
       idRemap = [(''s1'', ''live-s1''), (''g1'', ''live-g1''), (''f1'', ''live-f1'')],
       elemMap = [(''s1'', exampleShape ''s1'' 0 0 2 5),
                  (''g1'', (exampleGroupElem ''g1'' [])\<lparr> elem_children := Some [(''live-s1'', ''true'')] \<rparr>)],
       blockMap = [(''f1'', True, BlockSnapshot ''f1'' ''affine:frame''
                      (noProps\<lparr> childElementIds := Some [(''live-g1'', ''true'')] \<rparr>) [])],
       applied =
         [\<lparr> member = ''s1'', call = AddElement (exampleShape ''s1'' 0 0 2 5),
             remap_at = [], returned = Some ''live-s1'' \<rparr>,
          \<lparr> member = ''g1'',
             call = AddElement ((exampleGroupElem ''g1'' [])\<lparr> elem_children := Some [(''live-s1'', ''true'')] \<rparr>),
             remap_at = [(''s1'', ''live-s1'')], returned = Some ''live-g1'' \<rparr>,
          \<lparr> member = ''f1'',
             call = SnapshotToSlice
                      \<lparr> pageId = ''doc-2'',
                        content = [BlockSnapshot ''f1'' ''affine:frame''
                                     (noProps\<lparr> childElementIds := Some [(''live-g1'', ''true'')] \<rparr>) []] \<rparr>
                      (Some ''surface-0'') None,
             remap_at = [(''s1'', ''live-s1''), (''g1'', ''live-g1'')],
             returned = Some ''live-f1'' \<rparr>] \<rparr>"

section \<open>Verified properties\<close>

subsection \<open>Drop targets and rejected drops\<close>

text \<open>
  Claim C10. For a drag of type \<^verbatim>\<open>blocks\<close>, the accept predicate registered for a block
  rejects the drag when it comes from the document of the watcher and the identifier of the
  block is among the model identifiers of the payload; it accepts every drag of type
  \<^verbatim>\<open>blocks\<close> that comes from another document, whatever the model identifiers are.
\<close>

theorem canDrop_same_doc_excludes_dragged:
  assumes "makeDropTarget w m = Some reg"
    and "bsEntity source = Some e" and "entity_type e = ''blocks''"
  shows "(fromThisDoc w source \<and> model_id m \<in> set (modelIds e) \<longrightarrow> \<not> accepts reg source)
       \<and> (\<not> fromThisDoc w source \<longrightarrow> accepts reg source)"
proof -
  from assms(1) have acc: "accepts reg = canDrop (doc_id w) m"
    by (auto simp: makeDropTarget_def Let_def split: if_splits)
  show ?thesis
    using assms(2,3) unfolding acc
    by (auto simp: canDrop_def fromThisDoc_def list_all_iff)
qed

lemma exampleParagraph_registered: "makeDropTarget exampleWatcher exampleParagraph \<noteq> None"
  by (simp add: makeDropTarget_def exampleWatcher_def exampleParagraph_def matchModels_def
      SurfaceBlockModel_def)

theorem canDrop_same_doc_excludes_dragged_witness:
  "\<not> accepts (the (makeDropTarget exampleWatcher exampleParagraph))
        (blocksPayload ''doc-1'' FromBlock [BlockSnapshot ''p1'' ''affine:paragraph'' noProps []] [''p1''])
   \<and> accepts (the (makeDropTarget exampleWatcher exampleParagraph))
        (blocksPayload ''doc-2'' FromBlock [BlockSnapshot ''p1'' ''affine:paragraph'' noProps []] [''p1''])"
proof -
  obtain reg where r: "makeDropTarget exampleWatcher exampleParagraph = Some reg"
    using exampleParagraph_registered by blast
  have a: "\<not> accepts reg (blocksPayload ''doc-1'' FromBlock
              [BlockSnapshot ''p1'' ''affine:paragraph'' noProps []] [''p1''])"
    using canDrop_same_doc_excludes_dragged [OF r, of "blocksPayload ''doc-1'' FromBlock
              [BlockSnapshot ''p1'' ''affine:paragraph'' noProps []] [''p1'']"]
    by (simp add: blocksPayload_def fromThisDoc_def exampleWatcher_def exampleParagraph_def)
  have b: "accepts reg (blocksPayload ''doc-2'' FromBlock
              [BlockSnapshot ''p1'' ''affine:paragraph'' noProps []] [''p1''])"
    using canDrop_same_doc_excludes_dragged [OF r, of "blocksPayload ''doc-2'' FromBlock
              [BlockSnapshot ''p1'' ''affine:paragraph'' noProps []] [''p1'']"]
    by (simp add: blocksPayload_def fromThisDoc_def exampleWatcher_def exampleParagraph_def)
  show ?thesis using a b r by simp
qed

text \<open>
  Claim C9. No drop decision is produced, and the drop indicator gets no rectangle, when
  the dragged snapshot is missing or has no content, when the payload has no origin, or
  when the hovered block is a database; the surface is never registered as a drop target.
\<close>

theorem no_decision_when_rejected:
  "(matchModels m [SurfaceBlockModel] \<longrightarrow> makeDropTarget w m = None)
   \<and> (draggedSnapshot dragPayload = None
       \<or> (\<exists>snap. draggedSnapshot dragPayload = Some snap \<and> content snap = [])
       \<or> drag_from dragPayload = None
       \<or> matchModels m [DatabaseBlockModel]
      \<longrightarrow> getDropResult w m dragPayload dropPayload = Inr None \<and> updateDropResult None = None)"
  by (auto simp: makeDropTarget_def getDropResult_def draggedSnapshot_def updateDropResult_def
      split: option.splits)

theorem no_decision_when_rejected_witness:
  "makeDropTarget exampleWatcher exampleSurface = None
   \<and> getDropResult exampleWatcher exampleParagraph
        \<lparr> bsEntity = None, drag_from = Some \<lparr> docId = ''doc-1'' \<rparr> \<rparr>
        \<lparr> edge = Some EdgeTop, modelId = ''p1'' \<rparr> = Inr None"
proof -
  have a: "matchModels exampleSurface [SurfaceBlockModel]"
    by (simp add: matchModels_def exampleSurface_def SurfaceBlockModel_def)
  have b: "draggedSnapshot \<lparr> bsEntity = None, drag_from = Some \<lparr> docId = ''doc-1'' \<rparr> \<rparr> = None"
    by (simp add: draggedSnapshot_def)
  show ?thesis
    using a b no_decision_when_rejected [of exampleSurface exampleWatcher
        "\<lparr> bsEntity = None, drag_from = Some \<lparr> docId = ''doc-1'' \<rparr> \<rparr>"
        "\<lparr> edge = Some EdgeTop, modelId = ''p1'' \<rparr>"]
    no_decision_when_rejected [of exampleParagraph exampleWatcher
        "\<lparr> bsEntity = None, drag_from = Some \<lparr> docId = ''doc-1'' \<rparr> \<rparr>"
        "\<lparr> edge = Some EdgeTop, modelId = ''p1'' \<rparr>"]
    by blast
qed

subsection \<open>The largest member\<close>


lemma pick_Nil: "pick [] l = l"
  by (simp add: pick_def)

lemma pick_Cons: "pick (m # ms) l = pick ms (consider_size (snd m) (fst m) l)"
  by (simp add: pick_def)

lemma pick_append: "pick (xs @ ys) l = pick ys (pick xs l)"
  by (simp add: pick_def)

lemma fold_walkElem: "fold walkElem es l =
   pick (concat (map (\<lambda>e. case elem_xywh e of None \<Rightarrow> [] | Some b \<Rightarrow> [(elem_id e, bound_w b * bound_h b)]) es)) l"
  by (induction es arbitrary: l) (auto simp: pick_Nil pick_Cons walkElem_def split: option.splits)

lemma walk_pick: "walk b l = Inr r \<Longrightarrow> r = pick (scanMembers b) l"
  and walks_pick: "walks bs l = Inr r \<Longrightarrow> r = pick (concat (map scanMembers bs)) l"
proof (induction b l and bs l arbitrary: r and r rule: walk_walks.induct)
  case (1 i f p cs largestElem)
  then show ?case
    by (auto simp: fold_walkElem pick_append pick_Nil pick_Cons split: option.splits)
next
  case (2 largestElem)
  then show ?case by (simp add: pick_Nil)
next
  case (3 b bs largestElem)
  then show ?case by (auto simp: pick_append split: sum.splits)
qed







subsection \<open>Rewriting the bounds\<close>


lemma reposition_eq:
  "reposition rct P ign b =
     \<lparr> bound_x = (if ign then fst P else bound_x b - bound_x rct + fst P),
       bound_y = (if ign then snd P else bound_y b - bound_y rct + snd P),
       bound_w = bound_w b, bound_h = bound_h b \<rparr>"
  by (simp add: reposition_def moveDelta_def)

lemma rewriteElem_members:
  "map member_bound (concat (map (\<lambda>e. case elem_xywh e of None \<Rightarrow> [] | Some b \<Rightarrow> [Member None None b])
      (map snd (map (\<lambda>(k, elem). (k, rewriteElem rct P ign elem)) es))))
   = map (spec_rewritten_bound w rct P ign)
       (concat (map (\<lambda>e. case elem_xywh e of None \<Rightarrow> [] | Some b \<Rightarrow> [Member None None b]) (map snd es)))"
  by (induction es)
     (auto simp: rewriteElem_def reposition_eq spec_rewritten_bound_def split: option.splits)

lemma rewrite_members:
  "map member_bound (spatialMembers (rewrite w rct P ign b))
   = map (spec_rewritten_bound w rct P ign) (spatialMembers b)"
proof (induction w rct P ign b rule: rewrite.induct)
  case (1 w rct point ign i f p cs)
  show ?case
  proof (cases "f = ''affine:surface''")
    case True
    have cs: "map member_bound (concat (map spatialMembers (map (rewrite w rct point ign) cs)))
        = map (spec_rewritten_bound w rct point ign) (concat (map spatialMembers cs))"
      using 1 [OF True] by (induction cs) auto
    show ?thesis
      using True cs rewriteElem_members [of rct point ign _ w]
      by (cases "elements p") (simp_all)
  next
    case False
    then show ?thesis
      by (auto simp: Let_def reposition_eq spec_rewritten_bound_def isCardFlavour_def split: option.splits)
  qed
qed

lemma rewrite_no_members: "spatialMembers b = [] \<Longrightarrow> rewrite w rct P ign b = b"
proof (induction w rct P ign b rule: rewrite.induct)
  case (1 w rct point ign i f p cs)
  show ?case
  proof (cases "f = ''affine:surface''")
    case True
    have cs: "map (rewrite w rct point ign) cs = cs"
      using 1 True by (auto intro!: map_idI)
    have es: "\<And>es. elements p = Some es \<Longrightarrow> map (\<lambda>(k, elem). (k, rewriteElem rct point ign elem)) es = es"
      using "1.prems" True by (auto intro!: map_idI simp: rewriteElem_def split: option.splits)
    show ?thesis using True cs es by (cases "elements p") simp_all
  next
    case False
    then show ?thesis using "1.prems" by (auto split: option.splits)
  qed
qed

text \<open>
  Claim C3. For a snapshot with an aggregate bounding box at \<open>(x, y)\<close> and a destination
  \<open>P\<close>, the rewrite gives every spatial member the bound of the specification: in relative
  mode a member at \<open>(mx, my)\<close> moves to \<open>(mx - x + P.x, my - y + P.y)\<close>, in absolute mode
  to \<open>P\<close>; an attachment or an embed gets the card width and height of its style, any other
  member keeps its size. A snapshot without a bounding box or without any spatial member
  is left as it is.
\<close>

theorem rewriteSnapshotXYWH_moves_members:
  "(getSnapshotRect w snap = Some rct \<longrightarrow>
      map member_bound (concat (map spatialMembers (content (rewriteSnapshotXYWH w snap P absolute))))
      = map (spec_rewritten_bound w rct P absolute) (concat (map spatialMembers (content snap))))
   \<and> (getSnapshotRect w snap = None \<or> concat (map spatialMembers (content snap)) = []
        \<longrightarrow> rewriteSnapshotXYWH w snap P absolute = snap)"
proof -
  have a: "map member_bound (concat (map spatialMembers (map (rewrite w rct P absolute) bs)))
      = map (spec_rewritten_bound w rct P absolute) (concat (map spatialMembers bs))" for bs rct
    by (induction bs) (auto simp: rewrite_members)
  have b: "concat (map spatialMembers bs) = [] \<Longrightarrow> map (rewrite w rct P absolute) bs = bs" for bs rct
    by (auto intro!: map_idI rewrite_no_members)
  show ?thesis
    using a b by (auto simp: rewriteSnapshotXYWH_def split: option.splits)
qed

lemma exampleSpatial_members:
  "concat (map spatialMembers (content exampleSpatial))
   = [Member None None \<lparr> bound_x = 10, bound_y = 20, bound_w = 30, bound_h = 40 \<rparr>,
      Member (Some ''affine:frame'') None \<lparr> bound_x = 50, bound_y = 60, bound_w = 100, bound_h = 100 \<rparr>,
      Member (Some ''affine:attachment'') None \<lparr> bound_x = 15, bound_y = 25, bound_w = 10, bound_h = 10 \<rparr>]"
  by (simp add: exampleSpatial_def noProps_def exampleShape_def)

theorem rewriteSnapshotXYWH_moves_members_witness:
  "map member_bound (concat (map spatialMembers
       (content (rewriteSnapshotXYWH boundingWatcher exampleSpatial (100, 200) False))))
     = [\<lparr> bound_x = 100, bound_y = 200, bound_w = 30, bound_h = 40 \<rparr>,
        \<lparr> bound_x = 140, bound_y = 240, bound_w = 100, bound_h = 100 \<rparr>,
        \<lparr> bound_x = 105, bound_y = 205, bound_w = 364, bound_h = 390 \<rparr>]
   \<and> map member_bound (concat (map spatialMembers
       (content (rewriteSnapshotXYWH boundingWatcher exampleSpatial (100, 200) True))))
     = [\<lparr> bound_x = 100, bound_y = 200, bound_w = 30, bound_h = 40 \<rparr>,
        \<lparr> bound_x = 100, bound_y = 200, bound_w = 100, bound_h = 100 \<rparr>,
        \<lparr> bound_x = 100, bound_y = 200, bound_w = 364, bound_h = 390 \<rparr>]
   \<and> rewriteSnapshotXYWH boundingWatcher exampleText (100, 200) False = exampleText"
proof -
  have r: "getSnapshotRect boundingWatcher exampleSpatial
      = Some \<lparr> bound_x = 10, bound_y = 20, bound_w = 140, bound_h = 140 \<rparr>"
    by (simp add: boundingWatcher_def)
  have t: "concat (map spatialMembers (content exampleText)) = []"
    by (simp add: exampleText_def noProps_def)
  have w: "EMBED_CARD_WIDTH boundingWatcher ''vertical'' = 364"
    "EMBED_CARD_HEIGHT boundingWatcher ''vertical'' = 390"
    by (simp_all add: boundingWatcher_def exampleWatcher_def)
  show ?thesis
    using r t
      rewriteSnapshotXYWH_moves_members [of boundingWatcher exampleSpatial _ "(100, 200)" False]
      rewriteSnapshotXYWH_moves_members [of boundingWatcher exampleSpatial _ "(100, 200)" True]
      rewriteSnapshotXYWH_moves_members [of boundingWatcher exampleText _ "(100, 200)" False]
    by (simp add: exampleSpatial_members spec_rewritten_bound_def startsWith_def w)
qed

subsection \<open>Examples evaluated\<close>

lemma exampleSchema_simps:
  "exampleSchema ''affine:paragraph'' ''affine:surface'' = False"
  "exampleSchema ''affine:paragraph'' ''affine:page'' = False"
  "exampleSchema ''affine:paragraph'' ''affine:note'' = True"
  "exampleSchema ''affine:paragraph'' ''affine:list'' = True"
  "exampleSchema ''affine:list'' ''affine:list'' = True"
  "exampleSchema ''affine:list'' ''affine:note'' = True"
  "exampleSchema ''affine:frame'' ''affine:note'' = False"
  "exampleSchema ''affine:frame'' ''affine:surface'' = True"
  "exampleSchema ''affine:frame'' ''affine:list'' = False"
  "exampleSchema ''affine:surface'' ''affine:note'' = False"
  "exampleSchema ''affine:note'' ''affine:note'' = False"
  by (simp_all add: exampleSchema_def)

lemma exampleWatcher_simps:
  "safeValidate exampleWatcher = exampleSchema"
  "doc_id exampleWatcher = ''doc-1''"
  "root_id exampleWatcher = ''root-0''"
  "surface_id exampleWatcher = Some ''surface-0''"
  "scale exampleWatcher = 1"
  "addBlock exampleWatcher = (\<lambda>n. ''note-new'')"
  "getBlock exampleWatcher = (\<lambda>n i. True)"
  "toModelCoordFromClientCoord exampleWatcher = (\<lambda>pt. (fst pt - 10, snd pt - 10))"
  "DEFAULT_NOTE_WIDTH exampleWatcher = 800"
  "DEFAULT_NOTE_HEIGHT exampleWatcher = 92"
  "BLOCK_CHILDREN_CONTAINER_PADDING_LEFT exampleWatcher = 24"
  "getRectByBlockComponent exampleWatcher = (\<lambda>m. \<lparr> left = 0, top = 0, width = 100, height = 20 \<rparr>)"
  "getBoundingClientRect exampleWatcher = (\<lambda>i. Some \<lparr> left = 0, top = 40, width = 100, height = 60 \<rparr>)"
  "isGroupLikeBlock exampleWatcher = (\<lambda>f. f = ''affine:frame'')"
  "addElement exampleWatcher = (\<lambda>n elem. ''live-'' @ elem_id elem)"
  "snapshotToSlice exampleWatcher =
     (\<lambda>n snap par idx. Slice (map (\<lambda>b. (''live-'' @ block_id b, flavour b)) (content snap)))"
  "getSnapshotRect exampleWatcher = (\<lambda>s. None)"
  "elementBound exampleWatcher = (\<lambda>i. None)"
  by (simp_all add: exampleWatcher_def)

lemma matchModels_simps:
  "matchModels (BlockModel i f r c p) [NoteBlockModel] = (f = ''affine:note'')"
  "matchModels (BlockModel i f r c p) [ListBlockModel] = (f = ''affine:list'')"
  "matchModels (BlockModel i f r c p) [DatabaseBlockModel] = (f = ''affine:database'')"
  "matchModels (BlockModel i f r c p) [SurfaceBlockModel] = (f = ''affine:surface'')"
  "matchModels (BlockModel i f r c p) [RootBlockModel] = (f = ''affine:page'')"
  by (simp_all add: matchModels_def NoteBlockModel_def ListBlockModel_def DatabaseBlockModel_def
      SurfaceBlockModel_def RootBlockModel_def)

subsection \<open>Blocks dropped on the canvas\<close>

text \<open>
  Claim C8, as amended. When some unit of the snapshot validates neither as a child of the
  surface nor as a child of the page, \<^verbatim>\<open>_dropAsGfxBlock\<close> creates one note under the root,
  with the default width and height, and then applies inside that note the snapshot
  restricted to the units that validate as children of a note.
\<close>

theorem dropAsGfxBlock_wraps_in_note:
  assumes "\<exists>b\<in>set (content snap). \<not> safeValidate w (flavour b) ''affine:surface''
              \<and> \<not> safeValidate w (flavour b) ''affine:page''"
  shows "\<exists>pos. dropAsGfxBlock w snap point =
           Inr [AddBlock ''affine:note''
                  (XywhProp \<lparr> bound_x = fst pos, bound_y = snd pos,
                              bound_w = DEFAULT_NOTE_WIDTH w, bound_h = DEFAULT_NOTE_HEIGHT w \<rparr>)
                  (root_id w) None,
                SnapshotToSlice
                  (snap\<lparr> content := filter (\<lambda>b. safeValidate w (flavour b) ''affine:note'') (content snap) \<rparr>)
                  (Some (addBlock w 0)) None]"
proof -
  from assms obtain b where b: "b \<in> set (content snap)"
    "\<not> safeValidate w (flavour b) ''affine:surface''" "\<not> safeValidate w (flavour b) ''affine:page''"
    by blast
  then have "filter (\<lambda>block. (if safeValidate w (flavour block) ''affine:surface'' then ''affine:surface''
                   else if safeValidate w (flavour block) ''affine:page'' then ''affine:page''
                   else ''empty'') = ''empty'') (content snap) \<noteq> []"
    by (auto simp: filter_empty_conv)
  then show ?thesis
    by (simp add: dropAsGfxBlock_def Let_def)
qed

theorem dropAsGfxBlock_wraps_in_note_witness:
  "\<exists>pos. dropAsGfxBlock exampleWatcher exampleMixed (0, 0) =
     Inr [AddBlock ''affine:note''
            (XywhProp \<lparr> bound_x = fst pos, bound_y = snd pos, bound_w = 800, bound_h = 92 \<rparr>)
            ''root-0'' None,
          SnapshotToSlice \<lparr> pageId = ''doc-1'', content = [paragraphUnit ''p1''] \<rparr>
            (Some ''note-new'') None]"
proof -
  have "\<exists>b\<in>set (content exampleMixed). \<not> safeValidate exampleWatcher (flavour b) ''affine:surface''
              \<and> \<not> safeValidate exampleWatcher (flavour b) ''affine:page''"
    by (simp add: exampleMixed_def paragraphUnit_def exampleWatcher_simps exampleSchema_simps)
  from dropAsGfxBlock_wraps_in_note [OF this, of "(0, 0)"]
  show ?thesis
    by (simp add: exampleMixed_def paragraphUnit_def frameUnit_def exampleWatcher_simps exampleSchema_simps)
qed

text \<open>
  The claim as stated, that the full snapshot is applied inside the new note, fails for a
  paragraph dragged together with a frame: the frame does not validate under a note and
  is left out of the applied snapshot.
\<close>

theorem dropAsGfxBlock_full_snapshot_counterexample:
  "\<exists>calls. dropAsGfxBlock exampleWatcher exampleMixed (0, 0) = Inr calls
     \<and> calls = [AddBlock ''affine:note''
                  (XywhProp \<lparr> bound_x = - 20, bound_y = - 20, bound_w = 800, bound_h = 92 \<rparr>)
                  ''root-0'' None,
                 SnapshotToSlice \<lparr> pageId = ''doc-1'', content = [paragraphUnit ''p1''] \<rparr>
                  (Some ''note-new'') None]
     \<and> (\<forall>par idx. SnapshotToSlice exampleMixed par idx \<notin> set calls)"
  by (simp add: dropAsGfxBlock_def Let_def exampleMixed_def paragraphUnit_def frameUnit_def
      exampleWatcher_simps exampleSchema_simps)

subsection \<open>Drops on the page\<close>

text \<open>
  Claim C5. A drop handled by \<^verbatim>\<open>_onPageDrop\<close> that would put the snapshot where it
  already sits makes no call to the store: that is, a drop placed after its target, dragged
  from this document, where the child of the parent at the insertion index is the first
  unit of the snapshot, or a drop placed before its target where the child just before
  the insertion index is the last unit of the snapshot. The drop is one of the page: it
  is neither sent to the canvas-to-page fallback nor a note merged into another note.
\<close>

theorem same_place_drop_is_noop:
  assumes res: "getDropResult w m dragPayload dropPayload = Inr (Some result)"
    and snap: "draggedSnapshot dragPayload = Some snap"
    and par: "dropParent result = Some par"
    and page: "\<not> needsPlaceholder w dragPayload snap"
    and nomerge: "\<not> (matchModels par [NoteBlockModel] \<and> flavour (hd (content snap)) = ''affine:note''
                     \<and> model_id par \<noteq> block_id (hd (content snap)))"
    and same: "(placement result = After \<and> fromThisDoc w dragPayload
                 \<and> at_index (model_children par) (dropIndex result par)
                     = Some (block_id (hd (content snap))))
               \<or> (placement result = Before
                 \<and> at_index (model_children par) (dropIndex result par - 1)
                     = Some (block_id (last (content snap))))"
  shows "onPageDrop fuel w m dragPayload dropPayload = Returned []"
  using assms
  by (auto simp: onPageDrop_def onSamePlace_def Let_def)

lemma p2_after_l1:
  "getDropResult exampleWatcher exampleListItem
     (blocksPayload ''doc-1'' FromBlock [paragraphUnit ''p2''] [''p2''])
     \<lparr> edge = Some EdgeBottom, modelId = ''l1'' \<rparr>
   = Inr (Some (decisionAfter exampleListItem))"
  by (simp add: getDropResult_def blocksPayload_def exampleListItem_def matchModels_simps
      exampleWatcher_simps Let_def paragraphUnit_def decisionAfter_def)

theorem same_place_drop_is_noop_witness:
  "onPageDrop 0 exampleWatcher exampleListItem
     (blocksPayload ''doc-1'' FromBlock [paragraphUnit ''p2''] [''p2''])
     \<lparr> edge = Some EdgeBottom, modelId = ''l1'' \<rparr> = Returned []"
proof (rule same_place_drop_is_noop [OF p2_after_l1])
  let ?snap = "\<lparr> pageId = ''doc-1'', content = [paragraphUnit ''p2''] \<rparr>"
  let ?payload = "blocksPayload ''doc-1'' FromBlock [paragraphUnit ''p2''] [''p2'']"
  show "draggedSnapshot ?payload = Some ?snap"
    by (simp add: draggedSnapshot_def blocksPayload_def)
  show "dropParent (decisionAfter exampleListItem) = Some exampleNote"
    by (simp add: dropParent_def exampleListItem_def decisionAfter_def)
  show "\<not> needsPlaceholder exampleWatcher ?payload ?snap"
    by (simp add: needsPlaceholder_def draggedFromGfx_def blocksPayload_def)
  show "\<not> (matchModels exampleNote [NoteBlockModel]
          \<and> flavour (hd (content ?snap)) = ''affine:note''
          \<and> model_id exampleNote \<noteq> block_id (hd (content ?snap)))"
    by (simp add: paragraphUnit_def)
  show "(placement (decisionAfter exampleListItem) = After
         \<and> fromThisDoc exampleWatcher ?payload
         \<and> at_index (model_children exampleNote) (dropIndex (decisionAfter exampleListItem) exampleNote)
             = Some (block_id (hd (content ?snap))))
        \<or> (placement (decisionAfter exampleListItem) = Before
         \<and> at_index (model_children exampleNote)
             (dropIndex (decisionAfter exampleListItem) exampleNote - 1)
             = Some (block_id (last (content ?snap))))"
    by (simp add: fromThisDoc_def blocksPayload_def exampleWatcher_simps dropIndex_def
        exampleListItem_def exampleNote_def indexOf_def at_index_def paragraphUnit_def
        decisionAfter_def)
qed




lemma getFallbackInsertPlace_find:
  "getFallbackInsertPlace m = find parentIsNote (selfAndAncestors m)"
  by (induction m rule: getFallbackInsertPlace.induct)
     (auto simp: parentIsNote_def split: option.splits)

text \<open>
  Claim C7, as amended. For a drop on a list item with the pointer over its right edge:
  when every unit of the snapshot validates under a list, the decision has placement
  \<open>In\<close> and the hovered item as target, and applying it for a drag of blocks inserts the
  snapshot at index 0 of the children of the hovered item; when some unit does not, the
  decision falls back to the nearest block, from the hovered item upwards, whose parent
  is a note, with placement \<open>After\<close> (no decision when there is none, and an error when
  that block has no view).
\<close>

theorem list_item_trailing_edge:
  assumes snap: "draggedSnapshot dragPayload = Some snap" "content snap \<noteq> []"
    and origin: "drag_from dragPayload \<noteq> None"
    and target: "matchModels m [ListBlockModel]" "edge dropPayload = Some EdgeRight"
  shows "(list_all (\<lambda>b. safeValidate w (flavour b) ''affine:list'') (content snap) \<longrightarrow>
            (\<exists>r. getDropResult w m dragPayload dropPayload = Inr (Some r)
                  \<and> placement r = In \<and> ms_model (modelState r) = m)
            \<and> (\<not> draggedFromGfx dragPayload \<longrightarrow>
                 onPageDrop fuel w m dragPayload dropPayload
                   = Returned [SnapshotToSlice snap (Some (model_id m)) (Some 0)]))
       \<and> (\<not> list_all (\<lambda>b. safeValidate w (flavour b) ''affine:list'') (content snap) \<longrightarrow>
            (case find parentIsNote (selfAndAncestors m) of
               None \<Rightarrow> getDropResult w m dragPayload dropPayload = Inr None
             | Some fallbackModel \<Rightarrow>
                 (case getBoundingClientRect w (model_id fallbackModel) of
                    None \<Rightarrow> getDropResult w m dragPayload dropPayload = Inl TypeError
                  | Some domRect \<Rightarrow>
                      (\<exists>r. getDropResult w m dragPayload dropPayload = Inr (Some r)
                            \<and> placement r = After \<and> ms_model (modelState r) = fallbackModel))))"
proof -
  have nd: "\<not> matchModels m [DatabaseBlockModel]" "\<not> matchModels m [NoteBlockModel]"
    using target(1)
    by (auto simp: matchModels_def ListBlockModel_def DatabaseBlockModel_def NoteBlockModel_def)
  have s: "(case bsEntity dragPayload of None \<Rightarrow> None | Some e \<Rightarrow> snapshot e) = Some snap"
    using snap(1) by (simp add: draggedSnapshot_def)
  show ?thesis
    using snap origin target nd s
    by (auto simp: getDropResult_def onPageDrop_def Let_def dropParent_def dropIndex_def
        onSamePlace_def needsPlaceholder_def getFallbackInsertPlace_find [symmetric]
        split: option.splits)
qed

theorem list_item_trailing_edge_witness:
  "(\<exists>r. getDropResult exampleWatcher exampleListItem
           (blocksPayload ''doc-1'' FromBlock [listUnit ''l9''] [''l9'']) (rightEdge ''l1'') = Inr (Some r)
        \<and> placement r = In \<and> ms_model (modelState r) = exampleListItem)
   \<and> onPageDrop 0 exampleWatcher exampleListItem
        (blocksPayload ''doc-1'' FromBlock [listUnit ''l9''] [''l9'']) (rightEdge ''l1'')
      = Returned [SnapshotToSlice \<lparr> pageId = ''doc-1'', content = [listUnit ''l9''] \<rparr> (Some ''l1'') (Some 0)]
   \<and> (\<exists>r. getDropResult exampleWatcher exampleNested
           (blocksPayload ''doc-1'' FromBlock [frameUnit ''f1''] [''f1'']) (rightEdge ''c1'') = Inr (Some r)
        \<and> placement r = After \<and> ms_model (modelState r) = exampleListItem)"
proof -
  have s: "draggedSnapshot (blocksPayload ''doc-1'' FromBlock c ids) = Some \<lparr> pageId = ''doc-1'', content = c \<rparr>"
    for c ids
    by (simp add: draggedSnapshot_def blocksPayload_def)
  have o: "drag_from (blocksPayload ''doc-1'' FromBlock c ids) \<noteq> None" for c ids
    by (simp add: blocksPayload_def)
  have g: "\<not> draggedFromGfx (blocksPayload ''doc-1'' FromBlock c ids)" for c ids
    by (simp add: draggedFromGfx_def blocksPayload_def)
  have l: "matchModels exampleListItem [ListBlockModel]" "matchModels exampleNested [ListBlockModel]"
    by (simp_all add: exampleListItem_def exampleNested_def matchModels_simps)
  have e: "edge (rightEdge i) = Some EdgeRight" for i
    by (simp add: rightEdge_def)
  have v: "list_all (\<lambda>b. safeValidate exampleWatcher (flavour b) ''affine:list'')
             (content \<lparr> pageId = ''doc-1'', content = [listUnit ''l9''] \<rparr>)"
    "\<not> list_all (\<lambda>b. safeValidate exampleWatcher (flavour b) ''affine:list'')
             (content \<lparr> pageId = ''doc-1'', content = [frameUnit ''f1''] \<rparr>)"
    by (simp_all add: listUnit_def frameUnit_def exampleWatcher_simps exampleSchema_simps)
  have f: "find parentIsNote (selfAndAncestors exampleNested) = Some exampleListItem"
    by (simp add: exampleNested_def exampleListItem_def exampleNote_def parentIsNote_def
        matchModels_simps)
  have b: "getBoundingClientRect exampleWatcher (model_id exampleListItem)
      = Some \<lparr> left = 0, top = 40, width = 100, height = 60 \<rparr>"
    by (simp add: exampleWatcher_simps)
  have 1: "content \<lparr> pageId = ''doc-1'', content = [listUnit ''l9''] \<rparr> \<noteq> []"
    "content \<lparr> pageId = ''doc-1'', content = [frameUnit ''f1''] \<rparr> \<noteq> []"
    by simp_all
  show ?thesis
    using list_item_trailing_edge [where fuel = 0 and w = exampleWatcher, OF s 1(1) o l(1) e]
      list_item_trailing_edge [where fuel = 0 and w = exampleWatcher, OF s 1(2) o l(2) e]
      v g f b
    by (simp add: exampleListItem_def)
qed

text \<open>
  The claim as stated, that the snapshot is appended at the end of the children of the
  hovered item, fails for an item that has a child: the insertion index is 0, not 1.
\<close>

theorem list_item_insert_at_end_counterexample:
  "onPageDrop 0 exampleWatcher exampleListItem
        (blocksPayload ''doc-1'' FromBlock [listUnit ''l9''] [''l9'']) (rightEdge ''l1'')
      = Returned [SnapshotToSlice \<lparr> pageId = ''doc-1'', content = [listUnit ''l9''] \<rparr> (Some ''l1'') (Some 0)]
   \<and> model_children exampleListItem = [''c1'']
   \<and> (0 :: int) \<noteq> int (length (model_children exampleListItem))"
  by (simp add: onPageDrop_def getDropResult_def blocksPayload_def rightEdge_def exampleListItem_def
      matchModels_simps exampleWatcher_simps exampleSchema_simps listUnit_def Let_def
      draggedSnapshot_def dropParent_def dropIndex_def draggedFromGfx_def needsPlaceholder_def
      onSamePlace_def)

subsection \<open>The canvas-to-page fallback\<close>











subsection \<open>The order of the merge\<close>

lemma trace_ok_snoc: "trace_ok w T (es @ [e]) = (trace_ok w T es \<and> entry_ok w T es e)"
  by (auto simp: trace_ok_def nth_append less_Suc_eq)

lemma set_update_subset: "set (AList.update k v al) \<subseteq> insert (k, v) (set al)"
  by (induction al) auto

lemma keys_delete: "fst ` set (AList.delete k al) = fst ` set al - {k}"
  using delete_keys [of k al] by (metis list.set_map set_removeAll)

lemma rewrite_step_keys:
  assumes "fst ` set obj \<subseteq> set ks \<union> snd ` set remap"
  shows "fst ` set (fold (\<lambda>childId obj.
             case map_of remap childId of
               Some remappedId \<Rightarrow>
                 AList.delete childId
                   (AList.update remappedId
                      (case map_of obj childId of None \<Rightarrow> ''undefined'' | Some v \<Rightarrow> v) obj)
             | None \<Rightarrow> AList.delete childId obj) ks obj) \<subseteq> snd ` set remap"
  using assms
proof (induction ks arbitrary: obj)
  case Nil
  then show ?case by simp
next
  case (Cons k ks)
  show ?case
  proof (cases "map_of remap k")
    case None
    have "fst ` set (AList.delete k obj) \<subseteq> set ks \<union> snd ` set remap"
      using Cons.prems by (auto simp: keys_delete)
    from Cons.IH [OF this] show ?thesis using None by simp
  next
    case (Some r)
    then have "r \<in> snd ` set remap"
      by (metis map_of_SomeD snd_conv image_eqI)
    then have "fst ` set (AList.delete k (AList.update r
                 (case map_of obj k of None \<Rightarrow> ''undefined'' | Some v \<Rightarrow> v) obj))
               \<subseteq> set ks \<union> snd ` set remap"
      using Cons.prems by (auto simp: keys_delete dom_update)
    from Cons.IH [OF this] show ?thesis using Some by simp
  qed
qed

lemma rewriteChildIds_live: "fst ` set (rewriteChildIds remap childJson) \<subseteq> snd ` set remap"
  unfolding rewriteChildIds_def
  by (rule rewrite_step_keys) auto

lemma merge_inv_step:
  assumes inv: "merge_inv w T s"
    and deps: "\<forall>d\<in>set (tree_get (containerTree T) i).
                 isMember T d \<longrightarrow> (\<exists>e'\<in>set (applied s). member e' = d)"
    and e: "member e = i" "remap_at e = idRemap s"
           "set (appliedChildIds w (call e)) \<subseteq> snd ` set (idRemap s)"
    and s': "containerTree s' = containerTree s"
            "fst ` set (blockMap s') = fst ` set (blockMap s)"
            "fst ` set (elemMap s') = fst ` set (elemMap s)"
            "applied s' = applied s @ [e]"
    and remap: "idRemap s' = (case returned e of None \<Rightarrow> idRemap s
                               | Some r \<Rightarrow> AList.update i r (idRemap s))"
  shows "merge_inv w T s'"
proof -
  have ok: "entry_ok w T (applied s) e"
    using inv deps e by (auto simp: entry_ok_def merge_inv_def)
  have dom: "fst ` set (idRemap s) \<subseteq> fst ` set (idRemap s')"
    using remap by (auto simp: dom_update split: option.splits)
  have i2: "\<forall>e'\<in>set (applied s'). returned e' \<noteq> None \<longrightarrow> member e' \<in> fst ` set (idRemap s')"
  proof (intro ballI impI)
    fix e' assume a: "e' \<in> set (applied s')" "returned e' \<noteq> None"
    show "member e' \<in> fst ` set (idRemap s')"
    proof (cases "e' = e")
      case True
      then show ?thesis using a(2) remap e(1) by (auto simp: dom_update)
    next
      case False
      then have "e' \<in> set (applied s)" using a(1) s'(4) by simp
      then show ?thesis using inv a(2) dom by (auto simp: merge_inv_def)
    qed
  qed
  have i3: "\<forall>p\<in>set (idRemap s'). \<exists>e'\<in>set (applied s'). member e' = fst p \<and> returned e' = Some (snd p)"
  proof
    fix p assume p: "p \<in> set (idRemap s')"
    show "\<exists>e'\<in>set (applied s'). member e' = fst p \<and> returned e' = Some (snd p)"
    proof (cases "p \<in> set (idRemap s)")
      case True
      then show ?thesis using inv s'(4) by (auto simp: merge_inv_def)
    next
      case False
      then obtain r where r: "returned e = Some r" "p = (i, r)"
        using p remap set_update_subset [of i _ "idRemap s"] by (auto split: option.splits)
      then show ?thesis using e(1) s'(4) by auto
    qed
  qed
  show ?thesis
    using inv ok i2 i3 s' by (simp add: merge_inv_def trace_ok_snoc)
qed

lemma childIds_block:
  "set (appliedChildIds w (SnapshotToSlice
          (snap\<lparr> content := [BlockSnapshot bi bf
              (if isGroupLikeBlock w bf
               then p\<lparr> childElementIds := map_option (rewriteChildIds remap) (childElementIds p) \<rparr>
               else p) cs] \<rparr>) par idx))
   \<subseteq> snd ` set remap"
proof (cases "childElementIds p")
  case None
  then show ?thesis by (simp add: appliedChildIds_def)
next
  case (Some js)
  then show ?thesis
    using rewriteChildIds_live [of remap js] by (auto simp: appliedChildIds_def)
qed

lemma childIds_elem:
  "set (appliedChildIds w (AddElement
          (elem\<lparr> elem_children := map_option (rewriteChildIds remap) (elem_children elem) \<rparr>)))
   \<subseteq> snd ` set remap"
proof (cases "elem_children elem")
  case None
  then show ?thesis by (simp add: appliedChildIds_def)
next
  case (Some js)
  then show ?thesis
    using rewriteChildIds_live [of remap js] by (auto simp: appliedChildIds_def)
qed

lemma dom_update_present: "map_of al k = Some v \<Longrightarrow> fst ` set (AList.update k v' al) = fst ` set al"
  by (auto simp: dom_update dest: map_of_SomeD intro: rev_image_eqI)

lemma applyMember_shape:
  "(\<exists>s'. applyMember w snap i s = Thrown s' \<and> (silent s s' \<or> records w i s s'))
   \<or> (\<exists>s'. applyMember w snap i s = Returned s' \<and> records w i s s')
   \<or> (applyMember w snap i s = Returned s
        \<and> map_of (blockMap s) i = None \<and> map_of (elemMap s) i = None)"
proof (cases "map_of (blockMap s) i")
  case None
  show ?thesis
  proof (cases "map_of (elemMap s) i")
    case n: None
    then show ?thesis using None by (simp add: applyMember_def)
  next
    case (Some elem)
    have "records w i s (state_of (applyMember w snap i s))"
      unfolding records_def
      apply (rule exI [of _ "\<lparr> member = i,
             call = AddElement (elem\<lparr> elem_children :=
                        map_option (rewriteChildIds (idRemap s)) (elem_children elem) \<rparr>),
             remap_at = idRemap s,
             returned = Some (addElement w (length (applied s))
                 (elem\<lparr> elem_children :=
                        map_option (rewriteChildIds (idRemap s)) (elem_children elem) \<rparr>)) \<rparr>"])
      using None Some childIds_elem [where w = w and elem = elem and remap = "idRemap s"]
      by (simp add: applyMember_def Let_def dom_update_present)
    moreover have "\<exists>s'. applyMember w snap i s = Returned s'"
      using None Some by (simp add: applyMember_def Let_def)
    ultimately show ?thesis by auto
  qed
next
  case (Some sb)
  obtain surfaceChild blk where sb: "sb = (surfaceChild, blk)" by (cases sb)
  obtain bi bf bp bcs where blk: "blk = BlockSnapshot bi bf bp bcs" by (cases blk)
  define p' where "p' = (if isGroupLikeBlock w bf
             then bp\<lparr> childElementIds := map_option (rewriteChildIds (idRemap s)) (childElementIds bp) \<rparr>
             else bp)"
  define s1 where "s1 = s\<lparr> blockMap := AList.update i (surfaceChild, BlockSnapshot bi bf p' bcs) (blockMap s) \<rparr>"
  define par where "par = (if surfaceChild then the (surface_id w) else root_id w)"
  define one where "one = snap\<lparr> content := [BlockSnapshot bi bf p' bcs] \<rparr>"
  define slices where "slices = dropToModel w (length (applied s)) one (Some par) None"
  define e where "e = (\<lambda>r. \<lparr> member = i, call = SnapshotToSlice one (Some par) None,
                    remap_at = idRemap s, returned = r \<rparr>)"
  have am: "applyMember w snap i s =
      (if surfaceChild \<and> surface_id w = None then Thrown s1
       else case slices of
              None \<Rightarrow> Returned (s1\<lparr> applied := applied s @ [e None] \<rparr>)
            | Some [] \<Rightarrow> Thrown (s1\<lparr> applied := applied s @ [e None] \<rparr>)
            | Some (u # us) \<Rightarrow>
                Returned (s1\<lparr> idRemap := AList.update i (fst u) (idRemap s),
                              applied := applied s @ [e (Some (fst u))] \<rparr>))"
    unfolding applyMember_def Let_def p'_def s1_def par_def one_def slices_def e_def
    using Some sb blk by (simp cong: option.case_cong list.case_cong)
  have dom1: "fst ` set (blockMap s1) = fst ` set (blockMap s)"
    using Some by (simp add: s1_def dom_update_present)
  have s1: "containerTree s1 = containerTree s" "elemMap s1 = elemMap s"
    "applied s1 = applied s" "idRemap s1 = idRemap s"
    by (simp_all add: s1_def)
  have ch: "set (appliedChildIds w (SnapshotToSlice one (Some par) None)) \<subseteq> snd ` set (idRemap s)"
    unfolding one_def p'_def by (rule childIds_block)
  have rec: "records w i s (s1\<lparr> idRemap := (case r of None \<Rightarrow> idRemap s
                                               | Some x \<Rightarrow> AList.update i x (idRemap s)),
                                   applied := applied s @ [e r] \<rparr>)" for r
    unfolding records_def
    apply (rule exI [of _ "e r"])
    using ch dom1 s1 by (simp add: e_def)
  have rec0: "records w i s (s1\<lparr> applied := applied s @ [e None] \<rparr>)"
    using rec [of None] s1(4) by (simp add: records_def)
  have sil: "silent s s1"
    using dom1 s1 by (simp add: silent_def)
  show ?thesis
  proof (cases "surfaceChild \<and> surface_id w = None")
    case True
    then show ?thesis using am sil by auto
  next
    case False
    show ?thesis
    proof (cases slices)
      case None
      then show ?thesis using am False rec0 by auto
    next
      case (Some units)
      show ?thesis
      proof (cases units)
        case Nil
        then show ?thesis using am False Some rec0 by auto
      next
        case (Cons u us)
        then show ?thesis using am False Some rec [of "Some (fst u)"] by auto
      qed
    qed
  qed
qed

lemma silent_inv: "merge_inv w T s \<Longrightarrow> silent s s' \<Longrightarrow> merge_inv w T s'"
  by (simp add: merge_inv_def silent_def)

lemma records_inv:
  assumes "merge_inv w T s"
    and "\<forall>d\<in>set (tree_get (containerTree T) i).
           isMember T d \<longrightarrow> (\<exists>e'\<in>set (applied s). member e' = d)"
    and "records w i s s'"
  shows "merge_inv w T s'"
  using assms(3) unfolding records_def
proof (elim exE conjE)
  fix e
  assume "member e = i" "remap_at e = idRemap s"
    "set (appliedChildIds w (call e)) \<subseteq> snd ` set (idRemap s)"
    "containerTree s' = containerTree s"
    "fst ` set (blockMap s') = fst ` set (blockMap s)"
    "fst ` set (elemMap s') = fst ` set (elemMap s)"
    "applied s' = applied s @ [e]"
    "idRemap s' = (case returned e of None \<Rightarrow> idRemap s | Some r \<Rightarrow> AList.update i r (idRemap s))"
  then show ?thesis by (rule merge_inv_step [OF assms(1,2)])
qed

lemma records_applied:
  assumes "records w i s s'"
  shows "set (applied s) \<subseteq> set (applied s')" and "\<exists>e'\<in>set (applied s'). member e' = i"
proof -
  from assms obtain e where e: "member e = i" "applied s' = applied s @ [e]"
    unfolding records_def by (elim exE conjE)
  show "set (applied s) \<subseteq> set (applied s')" using e(2) by (simp add: subset_insertI)
  have "e \<in> set (applied s')" using e(2) by simp
  then show "\<exists>e'\<in>set (applied s'). member e' = i" using e(1) by (rule rev_bexI)
qed

lemma not_member:
  assumes "merge_inv w T s" "map_of (blockMap s) i = None" "map_of (elemMap s) i = None"
  shows "\<not> isMember T i"
proof -
  have "i \<notin> fst ` set (blockMap s)" "i \<notin> fst ` set (elemMap s)"
    using assms(2,3) by (simp_all add: map_of_eq_None_iff)
  moreover have "fst ` set (blockMap s) = fst ` set (blockMap T)"
    "fst ` set (elemMap s) = fst ` set (elemMap T)"
    using assms(1) by (simp_all add: merge_inv_def)
  ultimately show ?thesis by (simp add: isMember_def)
qed

lemma applyMember_inv:
  assumes inv: "merge_inv w T s"
    and deps: "\<forall>d\<in>set (tree_get (containerTree T) i).
                 isMember T d \<longrightarrow> (\<exists>e'\<in>set (applied s). member e' = d)"
  shows "merge_inv w T (state_of (applyMember w snap i s))
       \<and> set (applied s) \<subseteq> set (applied (state_of (applyMember w snap i s)))
       \<and> (\<forall>s'. applyMember w snap i s = Returned s' \<longrightarrow> isMember T i
             \<longrightarrow> (\<exists>e'\<in>set (applied s'). member e' = i))"
  using applyMember_shape [of w snap i s]
proof (elim disjE exE conjE)
  fix s' assume a: "applyMember w snap i s = Thrown s'" "silent s s'"
  have "merge_inv w T s'" using inv a(2) by (rule silent_inv)
  moreover have "applied s' = applied s" using a(2) by (simp add: silent_def)
  ultimately show ?thesis by (simp add: a(1))
next
  fix s' assume a: "applyMember w snap i s = Thrown s'" "records w i s s'"
  have "merge_inv w T s'" using inv deps a(2) by (rule records_inv)
  moreover note records_applied(1) [OF a(2)]
  ultimately show ?thesis by (simp add: a(1))
next
  fix s' assume a: "applyMember w snap i s = Returned s'" "records w i s s'"
  have "merge_inv w T s'" using inv deps a(2) by (rule records_inv)
  moreover note records_applied [OF a(2)]
  ultimately show ?thesis by (simp add: a(1))
next
  assume a: "applyMember w snap i s = Returned s" "map_of (blockMap s) i = None"
    "map_of (elemMap s) i = None"
  have "\<not> isMember T i" using inv a(2,3) by (rule not_member)
  then show ?thesis using inv by (simp add: a(1))
qed

lemma add_inv:
  "merge_inv w T s \<Longrightarrow>
     merge_inv w T (state_of (addInDependencyOrder n w snap i s))
     \<and> set (applied s) \<subseteq> set (applied (state_of (addInDependencyOrder n w snap i s)))
     \<and> (\<forall>s'. addInDependencyOrder n w snap i s = Returned s' \<longrightarrow> isMember T i
           \<longrightarrow> (\<exists>e'\<in>set (applied s'). member e' = i))"
  and addEach_inv:
  "merge_inv w T s \<Longrightarrow>
     merge_inv w T (state_of (addEach n w snap ids s))
     \<and> set (applied s) \<subseteq> set (applied (state_of (addEach n w snap ids s)))
     \<and> (\<forall>s'. addEach n w snap ids s = Returned s' \<longrightarrow>
           (\<forall>d\<in>set ids. isMember T d \<longrightarrow> (\<exists>e'\<in>set (applied s'). member e' = d)))"
proof (induction n w snap i s and n w snap ids s rule: addInDependencyOrder_addEach.induct)
  case (1 w snap i s)
  then show ?case by simp
next
  case (2 n w snap i s)
  note ih = "2.IH" [OF "2.prems"]
  have tree: "containerTree s = containerTree T" using "2.prems" by (simp add: merge_inv_def)
  show ?case
  proof (cases "addEach n w snap (tree_get (containerTree s) i) s")
    case (OutOfFuel s1)
    then show ?thesis using ih by simp
  next
    case (Thrown s1)
    then show ?thesis using ih by simp
  next
    case (Returned s1)
    have inv1: "merge_inv w T s1" and sub: "set (applied s) \<subseteq> set (applied s1)"
      and deps: "\<forall>d\<in>set (tree_get (containerTree T) i).
                   isMember T d \<longrightarrow> (\<exists>e'\<in>set (applied s1). member e' = d)"
      using ih Returned tree by simp_all
    from applyMember_inv [OF inv1 deps, of snap] sub Returned
    show ?thesis by auto
  qed
next
  case (3 n w snap s)
  then show ?case by simp
next
  case (4 n w snap childId rest s)
  note ih1 = "4.IH"(1) [OF "4.prems"]
  show ?case
  proof (cases "addInDependencyOrder n w snap childId s")
    case (OutOfFuel s1)
    then show ?thesis using ih1 by simp
  next
    case (Thrown s1)
    then show ?thesis using ih1 by simp
  next
    case (Returned s1)
    have inv1: "merge_inv w T s1" and sub: "set (applied s) \<subseteq> set (applied s1)"
      and c: "isMember T childId \<longrightarrow> (\<exists>e'\<in>set (applied s1). member e' = childId)"
      using ih1 Returned by simp_all
    note ih2 = "4.IH"(2) [OF Returned inv1]
    let ?r = "addEach n w snap rest s1"
    have eq: "addEach n w snap (childId # rest) s = ?r"
      using Returned by simp
    have sub2: "set (applied s1) \<subseteq> set (applied (state_of ?r))"
      using ih2 by simp
    have "\<forall>d\<in>set (childId # rest). isMember T d \<longrightarrow> (\<exists>e'\<in>set (applied s'). member e' = d)"
      if r: "?r = Returned s'" for s'
    proof -
      have "set (applied s1) \<subseteq> set (applied s')" using sub2 r by simp
      moreover have "\<forall>d\<in>set rest. isMember T d \<longrightarrow> (\<exists>e'\<in>set (applied s'). member e' = d)"
        using ih2 r by simp
      ultimately show ?thesis using c by auto
    qed
    then show ?thesis
      unfolding eq using ih2 sub sub2 by blast
  qed
qed

lemma buildContainerTree_fresh:
  "applied (buildContainerTree w b s) = applied s \<and> idRemap (buildContainerTree w b s) = idRemap s"
proof (induction w b s rule: buildContainerTree.induct)
  case (1 w i f p cs s)
  have "applied (fold (buildContainerTree w) cs' s') = applied s'
        \<and> idRemap (fold (buildContainerTree w) cs' s') = idRemap s'"
    if "set cs' \<subseteq> set cs" "f = ''affine:surface''" for cs' s'
    using that
  proof (induction cs' arbitrary: s')
    case Nil
    then show ?case by simp
  next
    case (Cons c cs')
    then show ?case using 1 [of _ _ c] by (simp add: Let_def)
  qed
  then show ?case by (simp add: Let_def)
qed

lemma mergeTree_fresh:
  "applied (mergeTree w snap point) = [] \<and> idRemap (mergeTree w snap point) = []"
proof -
  have "applied (fold (buildContainerTree w) bs s) = applied s
        \<and> idRemap (fold (buildContainerTree w) bs s) = idRemap s" for bs s
    by (induction bs arbitrary: s) (simp_all add: buildContainerTree_fresh)
  then show ?thesis by (simp add: mergeTree_def initialMergeState_def)
qed

lemma mergeTree_inv: "merge_inv w (mergeTree w snap point) (mergeTree w snap point)"
  by (simp add: merge_inv_def trace_ok_def mergeTree_fresh)

lemma in_take_conv:
  assumes "k \<le> length es"
  shows "(\<exists>e'\<in>set (take k es). P e') = (\<exists>j<k. P (es ! j))"
proof
  assume "\<exists>e'\<in>set (take k es). P e'"
  then obtain e' where e': "e' \<in> set (take k es)" "P e'"
    by blast
  then obtain j where j: "j < length (take k es)" "take k es ! j = e'"
    by (auto simp: in_set_conv_nth)
  then have "j < k" "es ! j = e'"
    using assms by simp_all
  then show "\<exists>j<k. P (es ! j)"
    using e'(2) by blast
next
  assume "\<exists>j<k. P (es ! j)"
  then obtain j where j: "j < k" "P (es ! j)"
    by blast
  then have "take k es ! j = es ! j" "j < length (take k es)"
    using assms by simp_all
  then have "es ! j \<in> set (take k es)"
    by (metis nth_mem)
  then show "\<exists>e'\<in>set (take k es). P e'"
    using j(2) by blast
qed

lemma all_take_conv:
  assumes "k \<le> length es"
  shows "(\<forall>e'\<in>set (take k es). P e') = (\<forall>j<k. P (es ! j))"
  using in_take_conv [OF assms, of "\<lambda>e. \<not> P e"] by blast

text \<open>
  What holds of every application that the merge makes, whatever the snapshot, for the
  dependencies that the container tree records: the child identifiers with which a
  container is passed to the apply are all live identifiers of the remap table at that
  moment, since a reference that the table does not resolve has been deleted; every
  dependency recorded for the container that is a member of the snapshot has been applied
  before it; every live identifier that an earlier apply returned is recorded in the table
  under the snapshot identifier of its member; and the table holds nothing but such
  identifiers.
\<close>

lemma merge_trace_invariant:
  assumes s: "s = state_of (mergeSnapshotToCurDoc fuel w snap point)"
    and k: "k < length (applied s)"
  shows "set (appliedChildIds w (call (applied s ! k))) \<subseteq> snd ` set (remap_at (applied s ! k))
       \<and> (\<forall>d\<in>set (tree_get (containerTree s) (member (applied s ! k))).
             isMember s d \<longrightarrow> (\<exists>j<k. member (applied s ! j) = d))
       \<and> (\<forall>j<k. returned (applied s ! j) \<noteq> None
             \<longrightarrow> member (applied s ! j) \<in> fst ` set (remap_at (applied s ! k)))
       \<and> (\<forall>p\<in>set (remap_at (applied s ! k)).
             \<exists>j<k. member (applied s ! j) = fst p \<and> returned (applied s ! j) = Some (snd p))"
proof -
  let ?T = "mergeTree w snap point"
  have "merge_inv w ?T s"
    unfolding s mergeSnapshotToCurDoc_def Let_def
    using addEach_inv [OF mergeTree_inv] by (rule conjunct1)
  then have t: "trace_ok w ?T (applied s)" and c: "containerTree s = containerTree ?T"
    and m: "isMember s = isMember ?T"
    by (simp_all add: merge_inv_def isMember_def fun_eq_iff)
  have "entry_ok w ?T (take k (applied s)) (applied s ! k)"
    using t k by (simp add: trace_ok_def)
  then show ?thesis
    unfolding entry_ok_def c m
    using k by (simp add: in_take_conv all_take_conv)
qed

lemma merge_exampleFrame:
  "mergeSnapshotToCurDoc 3 exampleWatcher exampleFrame None = Returned frameMerged"
  by code_simp

lemma frameMerged_facts:
  "length (applied frameMerged) = 3"
  "member (applied frameMerged ! 2) = ''f1''"
  "tree_get (containerTree frameMerged) ''f1'' = [''g1'', ''zz'']"
  "appliedChildIds exampleWatcher (call (applied frameMerged ! 2)) = [''live-g1'']"
  "isMember frameMerged ''g1''"
  "\<not> isMember frameMerged ''zz''"
  "map_of (remap_at (applied frameMerged ! 2)) ''g1'' = Some ''live-g1''"
  by code_simp+

lemma merge_trace_invariant_example:
  "mergeSnapshotToCurDoc 3 exampleWatcher exampleFrame None = Returned frameMerged
   \<and> member (applied frameMerged ! 2) = ''f1''
   \<and> tree_get (containerTree frameMerged) ''f1'' = [''g1'', ''zz'']
   \<and> appliedChildIds exampleWatcher (call (applied frameMerged ! 2)) = [''live-g1'']
   \<and> set (appliedChildIds exampleWatcher (call (applied frameMerged ! 2)))
        \<subseteq> snd ` set (remap_at (applied frameMerged ! 2))
   \<and> (\<exists>j<2. member (applied frameMerged ! j) = ''g1'')
   \<and> map_of (remap_at (applied frameMerged ! 2)) ''g1'' = Some ''live-g1''"
proof -
  have s: "frameMerged = state_of (mergeSnapshotToCurDoc 3 exampleWatcher exampleFrame None)"
    by (simp add: merge_exampleFrame)
  have k: "2 < length (applied frameMerged)"
    by (simp add: frameMerged_facts)
  from merge_trace_invariant [OF s k]
  show ?thesis
    using merge_exampleFrame frameMerged_facts by simp
qed

subsection \<open>Groups of canvas elements\<close>

text \<open>The test \<^verbatim>\<open>isGroupLikeElem\<close> holds of no type, whatever class the surface answers:
  the chain of a constructor holds constructors, \<^verbatim>\<open>Function.prototype\<close> and
  \<^verbatim>\<open>Object.prototype\<close>, never the prototype object of a class. So every element of a
  surface is added to the root set under its own identifier, and no element is given
  dependencies in the container tree.\<close>

lemma isGroupLikeElem_never: "\<not> isGroupLikeElem w t"
  by (auto simp: isGroupLikeElem_def isPrototypeOf_def constructorChain_def split: option.splits)

lemma buildElem_adds_elemId: "buildElem w entry t = tree_add ''root'' (fst entry) t"
  by (simp add: buildElem_def isGroupLikeElem_never)

lemma tree_get_add: "tree_get (tree_add k x t) k = set_add x (tree_get t k)"
  by (simp add: tree_get_def tree_add_def update_conv')

lemma elements_are_roots:
  "set (tree_get (fold (buildElem w) em t) ''root'') = set (tree_get t ''root'') \<union> fst ` set em"
proof (induction em arbitrary: t)
  case Nil
  then show ?case by simp
next
  case (Cons entry em)
  have "set (tree_get (buildElem w entry t) ''root'') = insert (fst entry) (set (tree_get t ''root''))"
    by (auto simp: buildElem_adds_elemId tree_get_add set_add_def)
  then show ?case
    using Cons.IH [of "buildElem w entry t"] by auto
qed

text \<open>
  Claim C1 says that when the merge applies a container with dependencies, the live
  identifier of every dependency is already in the remap table. For a surface whose
  elements are the group \<open>g1\<close> of the shape \<open>s1\<close>, written first, and \<open>s1\<close>, the merge
  returns after two applications: \<open>g1\<close> first, with an empty remap table and with no child
  identifier left, its reference to \<open>s1\<close> having been deleted as unresolved; then \<open>s1\<close>.
  The class that the surface answers for the type of \<open>g1\<close> extends
  \<^verbatim>\<open>GfxGroupLikeElementModel\<close>, and the test \<^verbatim>\<open>isGroupLikeElem\<close> is false of it.
\<close>

theorem group_applied_before_its_member:
  "map (\<lambda>entry. (fst entry, elem_type (snd entry),
                  map fst (case elem_children (snd entry) of None \<Rightarrow> [] | Some js \<Rightarrow> js)))
       (concat (map (\<lambda>b. case elements (props b) of None \<Rightarrow> [] | Some es \<Rightarrow> es)
                  (content exampleGroupFirst)))
     = [(''g1'', ''group'', [''s1'']), (''s1'', ''shape'', [])]
   \<and> (case mergeSnapshotToCurDoc 1 exampleWatcher exampleGroupFirst None of
         Returned s \<Rightarrow>
           map (\<lambda>e. (member e, appliedChildIds exampleWatcher (call e), remap_at e, returned e))
               (applied s)
             = [(''g1'', [], [], Some ''live-g1''),
                (''s1'', [], [(''g1'', ''live-g1'')], Some ''live-s1'')]
       | _ \<Rightarrow> False)
   \<and> getConstructor exampleWatcher ''group''
        = Some [''GroupElementModel'', ''GfxGroupLikeElementModel'', ''GfxPrimitiveElementModel'']
   \<and> isGroupLikeElem exampleWatcher ''group'' = False"
  by code_simp

text \<open>
  Claim C2 says that the root set holds the members that no container of the snapshot
  claims, and only those. For the same surface the root set built by
  \<^verbatim>\<open>buildContainerTree\<close> is \<open>g1\<close>, \<open>s1\<close>, and the container tree has no other entry: the
  shape \<open>s1\<close>, which the group \<open>g1\<close> lists as its child, is a root, and nothing is recorded
  as a dependency of \<open>g1\<close>. It is so as well when \<open>s1\<close> is written before \<open>g1\<close>. (The
  group itself is a root under its own identifier.)
\<close>

theorem claimed_member_is_a_root:
  "tree_get (containerTree (mergeTree exampleWatcher exampleGroupFirst None)) ''root''
     = [''g1'', ''s1'']
   \<and> map fst (containerTree (mergeTree exampleWatcher exampleGroupFirst None)) = [''root'']
   \<and> map (\<lambda>entry. (fst entry,
                    map fst (case elem_children (snd entry) of None \<Rightarrow> [] | Some js \<Rightarrow> js)))
        (elemMap (mergeTree exampleWatcher exampleGroupFirst None))
     = [(''g1'', [''s1'']), (''s1'', [])]
   \<and> tree_get (containerTree (mergeTree exampleWatcher exampleGroup None)) ''root''
     = [''s1'', ''g1'']"
  by code_simp

end
